theory Spec2Isabelle
  imports Main "HOL-Library.Char_ord" "HOL-Library.List_Lexorder"
begin

section \<open>Domain core\<close>

text \<open>
  \<^verbatim>\<open>types.h\<close>: \<^verbatim>\<open>EntityId\<close> is a \<^verbatim>\<open>std::string\<close>, \<^verbatim>\<open>Date\<close> is a
  \<^verbatim>\<open>std::chrono::system_clock::time_point\<close>, modelled as its tick count since the epoch
  (an integer; the comparisons of the source are comparisons of tick counts).
  The exception classes become the constructors of \<open>exn\<close>, each carrying the text of
  \<^verbatim>\<open>what()\<close>. Beside the three classes of \<^verbatim>\<open>types.h\<close> there are the two
  exceptions \<^verbatim>\<open>std::stoi\<close> throws, and a value for an unchecked
  \<^verbatim>\<open>std::vector::operator[]\<close> outside the vector's bounds.
\<close>

type_synonym EntityId = string
type_synonym Date = int

datatype exn =
    InvalidArgumentException string
  | NotFoundException string
  | OperationFailedException string
  | std_invalid_argument string
  | std_out_of_range string
  | vector_index_out_of_range

fun is_InvalidArgument :: "exn \<Rightarrow> bool" where
  "is_InvalidArgument (InvalidArgumentException m) = True"
| "is_InvalidArgument e = False"

fun is_NotFound :: "exn \<Rightarrow> bool" where
  "is_NotFound (NotFoundException m) = True"
| "is_NotFound e = False"

fun is_OperationFailed :: "exn \<Rightarrow> bool" where
  "is_OperationFailed (OperationFailedException m) = True"
| "is_OperationFailed e = False"

datatype AvailabilityStatus = AVAILABLE | BORROWED | RESERVED | MAINTENANCE | UNNAMED_STATUS int

subsection \<open>Author and User\<close>

record Author =
  author_id :: EntityId
  author_name :: string

definition new_Author :: "EntityId \<Rightarrow> string \<Rightarrow> exn + Author" where
  "new_Author i n =
     (if i = [] then Inl (InvalidArgumentException ''Author ID cannot be empty.'')
      else if n = [] then Inl (InvalidArgumentException ''Author name cannot be empty.'')
      else Inr \<lparr>author_id = i, author_name = n\<rparr>)"

record User =
  user_id :: EntityId
  user_name :: string

definition new_User :: "EntityId \<Rightarrow> string \<Rightarrow> exn + User" where
  "new_User i n =
     (if i = [] then Inl (InvalidArgumentException ''User ID cannot be empty.'')
      else if n = [] then Inl (InvalidArgumentException ''User name cannot be empty.'')
      else Inr \<lparr>user_id = i, user_name = n\<rparr>)"

subsection \<open>Book, the one library item\<close>

text \<open>
  The \<^verbatim>\<open>std::shared_ptr<Author>\<close> of a book is an \<open>Author option\<close>: \<open>None\<close> is the
  null pointer. The constructor checks its arguments in the order of \<^verbatim>\<open>book.cc\<close>.
\<close>

record Book =
  book_id :: EntityId
  book_title :: string
  book_author :: "Author option"
  book_isbn :: string
  book_publication_year :: int
  book_availability_status :: AvailabilityStatus

definition new_Book ::
  "EntityId \<Rightarrow> string \<Rightarrow> Author option \<Rightarrow> string \<Rightarrow> int \<Rightarrow> AvailabilityStatus \<Rightarrow> exn + Book" where
  "new_Book i t a isbn y s =
     (if i = [] then Inl (InvalidArgumentException ''Book ID cannot be empty.'')
      else if t = [] then Inl (InvalidArgumentException ''Book title cannot be empty.'')
      else if a = None then Inl (InvalidArgumentException ''Book author cannot be null.'')
      else if isbn = [] then Inl (InvalidArgumentException ''Book ISBN cannot be empty.'')
      else if y \<le> 0 then Inl (InvalidArgumentException ''Publication year must be positive.'')
      else Inr \<lparr>book_id = i, book_title = t, book_author = a, book_isbn = isbn,
                book_publication_year = y, book_availability_status = s\<rparr>)"

definition setAvailabilityStatus :: "Book \<Rightarrow> AvailabilityStatus \<Rightarrow> Book" where
  "setAvailabilityStatus b s = b\<lparr>book_availability_status := s\<rparr>"

subsection \<open>LoanRecord\<close>

record LoanRecord =
  lr_record_id :: EntityId
  lr_item_id :: EntityId
  lr_user_id :: EntityId
  lr_loan_date :: Date
  lr_due_date :: Date
  lr_return_date :: "Date option"

definition new_LoanRecord ::
  "EntityId \<Rightarrow> EntityId \<Rightarrow> EntityId \<Rightarrow> Date \<Rightarrow> Date \<Rightarrow> exn + LoanRecord" where
  "new_LoanRecord rid iid uid loan due =
     (if rid = [] then Inl (InvalidArgumentException ''LoanRecord ID cannot be empty.'')
      else if iid = [] then Inl (InvalidArgumentException ''LoanRecord Item ID cannot be empty.'')
      else if uid = [] then Inl (InvalidArgumentException ''LoanRecord User ID cannot be empty.'')
      else if due < loan then Inl (InvalidArgumentException ''Due date cannot be before loan date.'')
      else Inr \<lparr>lr_record_id = rid, lr_item_id = iid, lr_user_id = uid,
                lr_loan_date = loan, lr_due_date = due, lr_return_date = None\<rparr>)"

definition setDueDate :: "LoanRecord \<Rightarrow> Date \<Rightarrow> exn + LoanRecord" where
  "setDueDate r due =
     (if due < lr_loan_date r then Inl (InvalidArgumentException ''Due date cannot be before loan date.'')
      else Inr (r\<lparr>lr_due_date := due\<rparr>))"

definition setReturnDate :: "LoanRecord \<Rightarrow> Date \<Rightarrow> exn + LoanRecord" where
  "setReturnDate r ret =
     (if ret < lr_loan_date r then Inl (InvalidArgumentException ''Return date cannot be before loan date.'')
      else Inr (r\<lparr>lr_return_date := Some ret\<rparr>))"

text \<open>
  A call of one of the two setters on a record object: the object after the call, and the
  exception if the call raised one. A setter that raises has assigned nothing, so the
  object is the one before the call.
\<close>

datatype setter_call = SetDueDate Date | SetReturnDate Date

fun call_setter :: "LoanRecord \<Rightarrow> setter_call \<Rightarrow> exn option \<times> LoanRecord" where
  "call_setter r (SetDueDate d) =
     (case setDueDate r d of Inl e \<Rightarrow> (Some e, r) | Inr r' \<Rightarrow> (None, r'))"
| "call_setter r (SetReturnDate d) =
     (case setReturnDate r d of Inl e \<Rightarrow> (Some e, r) | Inr r' \<Rightarrow> (None, r'))"

fun call_setters :: "LoanRecord \<Rightarrow> setter_call list \<Rightarrow> LoanRecord" where
  "call_setters r [] = r"
| "call_setters r (c # cs) = call_setters (snd (call_setter r c)) cs"

definition loan_record_invariant :: "LoanRecord \<Rightarrow> bool" where
  "loan_record_invariant r \<longleftrightarrow>
     lr_loan_date r \<le> lr_due_date r \<and>
     (case lr_return_date r of None \<Rightarrow> True | Some ret \<Rightarrow> lr_loan_date r \<le> ret)"

fun violates :: "LoanRecord \<Rightarrow> setter_call \<Rightarrow> bool" where
  "violates r (SetDueDate d) = (d < lr_loan_date r)"
| "violates r (SetReturnDate d) = (d < lr_loan_date r)"


section \<open>Library calls the program relies on\<close>

text \<open>
  The functions of this section are not code of the repository: they are the calls of the
  C and C++ standard library that the repository's functions are written with, modelled so
  that the repository's functions can be evaluated. Times are taken in the UTC zone (so
  \<^verbatim>\<open>localtime\<close> is \<^verbatim>\<open>gmtime\<close> and \<^verbatim>\<open>mktime\<close> is its inverse with
  normalisation), and the clock's tick is the nanosecond.
\<close>

subsection \<open>\<^verbatim>\<open>std::to_string\<close> and \<^verbatim>\<open>std::stoi\<close>\<close>

definition digit_char :: "nat \<Rightarrow> char" where
  "digit_char n = ''0123456789'' ! (n mod 10)"

function decimal_digits :: "nat \<Rightarrow> string" where
  "decimal_digits n =
     (if n < 10 then [digit_char n] else decimal_digits (n div 10) @ [digit_char n])"
  by pat_completeness auto
termination
  by (relation "measure id") auto

declare decimal_digits.simps [simp del]

definition to_string :: "int \<Rightarrow> string" where
  "to_string n = (if n < 0 then CHR ''-'' # decimal_digits (nat (- n)) else decimal_digits (nat n))"

definition is_digit :: "char \<Rightarrow> bool" where
  "is_digit c \<longleftrightarrow> c \<in> set ''0123456789''"

definition digit_value :: "char \<Rightarrow> int" where
  "digit_value c = int (of_char c) - 48"

definition is_space :: "char \<Rightarrow> bool" where
  "is_space c \<longleftrightarrow> c \<in> {CHR '' '', CHR 0x09, CHR 0x0A, CHR 0x0B, CHR 0x0C, CHR 0x0D}"

fun digits_value :: "int \<Rightarrow> string \<Rightarrow> int" where
  "digits_value acc [] = acc"
| "digits_value acc (c # cs) = digits_value (acc * 10 + digit_value c) cs"

definition INT_MIN :: int where "INT_MIN = - 2147483648"
definition INT_MAX :: int where "INT_MAX = 2147483647"

text \<open>
  \<^verbatim>\<open>std::stoi\<close>: leading white space is skipped, a sign is optional, the longest run of
  digits is converted and what follows is ignored; no digit raises
  \<^verbatim>\<open>std::invalid_argument\<close>, a value outside \<^verbatim>\<open>int\<close> raises \<^verbatim>\<open>std::out_of_range\<close>.
\<close>

definition stoi :: "string \<Rightarrow> exn + int" where
  "stoi s =
     (let s1 = dropWhile is_space s;
          neg = (s1 \<noteq> [] \<and> hd s1 = CHR ''-'');
          s2 = (if s1 \<noteq> [] \<and> (hd s1 = CHR ''-'' \<or> hd s1 = CHR ''+'') then tl s1 else s1);
          ds = takeWhile is_digit s2;
          v = (if neg then - digits_value 0 ds else digits_value 0 ds)
      in if ds = [] then Inl (std_invalid_argument ''stoi'')
         else if v < INT_MIN \<or> INT_MAX < v then Inl (std_out_of_range ''stoi'')
         else Inr v)"

subsection \<open>\<^verbatim>\<open>std::replace\<close> and \<^verbatim>\<open>std::getline\<close>\<close>

definition std_replace :: "char \<Rightarrow> char \<Rightarrow> string \<Rightarrow> string" where
  "std_replace old new s = map (\<lambda>c. if c = old then new else c) s"

text \<open>
  One call of \<^verbatim>\<open>std::getline(stream, field, delim)\<close> on the unread rest of a stream:
  at the end of the input nothing is extracted and the call fails; otherwise the characters
  before the next delimiter (or before the end) are the field, and the delimiter is consumed.
  \<open>getline_all\<close> is the loop \<^verbatim>\<open>while (std::getline(...))\<close> collecting the fields. A
  final empty field (input ending in the delimiter) is therefore never produced.
\<close>

definition getline :: "char \<Rightarrow> string \<Rightarrow> (string \<times> string) option" where
  "getline delim s =
     (if s = [] then None
      else Some (takeWhile (\<lambda>c. c \<noteq> delim) s, drop 1 (dropWhile (\<lambda>c. c \<noteq> delim) s)))"

function getline_all :: "char \<Rightarrow> string \<Rightarrow> string list" where
  "getline_all delim s =
     (case getline delim s of None \<Rightarrow> [] | Some (field, rest) \<Rightarrow> field # getline_all delim rest)"
  by pat_completeness auto
termination
proof (relation "measure (\<lambda>(delim, s). length s)")
  show "wf (measure (\<lambda>(delim, s). length s))" by simp
next
  fix delim :: char and s :: string and x2 x y
  assume "getline delim s = Some x2" and "(x, y) = x2"
  then have "s \<noteq> []" and "y = drop 1 (dropWhile (\<lambda>c. c \<noteq> delim) s)"
    by (auto simp: getline_def split: if_splits)
  moreover have "length (dropWhile (\<lambda>c. c \<noteq> delim) s) \<le> length s"
    by (rule length_dropWhile_le)
  ultimately show "((delim, y), (delim, s)) \<in> measure (\<lambda>(delim, s). length s)"
    by (cases s) (auto split: if_splits)
qed

declare getline_all.simps [simp del]

subsection \<open>\<^verbatim>\<open>std::tm\<close>, \<^verbatim>\<open>localtime\<close>, \<^verbatim>\<open>mktime\<close>\<close>

record tm =
  tm_sec :: int
  tm_min :: int
  tm_hour :: int
  tm_mday :: int
  tm_mon :: int
  tm_year :: int

definition days_from_civil :: "int \<Rightarrow> int \<Rightarrow> int \<Rightarrow> int" where
  "days_from_civil y m d =
     (let y1 = (if m \<le> 2 then y - 1 else y);
          era = y1 div 400;
          yoe = y1 - era * 400;
          doy = (153 * (if 2 < m then m - 3 else m + 9) + 2) div 5 + d - 1;
          doe = yoe * 365 + yoe div 4 - yoe div 100 + doy
      in era * 146097 + doe - 719468)"

definition civil_from_days :: "int \<Rightarrow> int \<times> int \<times> int" where
  "civil_from_days z =
     (let z1 = z + 719468;
          era = z1 div 146097;
          doe = z1 - era * 146097;
          yoe = (doe - doe div 1460 + doe div 36524 - doe div 146096) div 365;
          doy = doe - (365 * yoe + yoe div 4 - yoe div 100);
          mp = (5 * doy + 2) div 153;
          d = doy - (153 * mp + 2) div 5 + 1;
          m = (if mp < 10 then mp + 3 else mp - 9);
          y = yoe + era * 400
      in (if m \<le> 2 then y + 1 else y, m, d))"

definition localtime :: "int \<Rightarrow> tm" where
  "localtime t =
     (let (y, m, d) = civil_from_days (t div 86400);
          s = t mod 86400
      in \<lparr>tm_sec = s mod 60, tm_min = (s div 60) mod 60, tm_hour = s div 3600,
          tm_mday = d, tm_mon = m - 1, tm_year = y - 1900\<rparr>)"

definition mktime :: "tm \<Rightarrow> int" where
  "mktime t =
     (let y = tm_year t + 1900 + tm_mon t div 12;
          m = tm_mon t mod 12 + 1
      in (days_from_civil y m 1 + (tm_mday t - 1)) * 86400
           + tm_hour t * 3600 + tm_min t * 60 + tm_sec t)"

subsection \<open>\<^verbatim>\<open>std::put_time\<close> and \<^verbatim>\<open>std::get_time\<close>\<close>

definition pad2 :: "int \<Rightarrow> string" where
  "pad2 n = (if 0 \<le> n \<and> n < 10 then CHR ''0'' # to_string n else to_string n)"

definition put_conversion :: "tm \<Rightarrow> char \<Rightarrow> string" where
  "put_conversion t c =
     (if c = CHR ''Y'' then to_string (tm_year t + 1900)
      else if c = CHR ''m'' then pad2 (tm_mon t + 1)
      else if c = CHR ''d'' then pad2 (tm_mday t)
      else if c = CHR ''H'' then pad2 (tm_hour t)
      else if c = CHR ''M'' then pad2 (tm_min t)
      else if c = CHR ''S'' then pad2 (tm_sec t)
      else if c = CHR ''%'' then ''%''
      else [CHR ''%'', c])"

fun put_time :: "tm \<Rightarrow> string \<Rightarrow> string" where
  "put_time t [] = []"
| "put_time t [c] = [c]"
| "put_time t (c # d # fmt) =
     (if c = CHR ''%'' then put_conversion t d @ put_time t fmt else c # put_time t (d # fmt))"

text \<open>
  \<^verbatim>\<open>std::get_time\<close> for the conversions the program's formats use. A number is read as
  the digits \<open>put_time\<close> writes for it (four for the year, two otherwise) and must lie in
  the conversion's range; a blank of the format matches any run of white space; any other
  character of the format must be the next character of the input. \<open>None\<close> is the
  stream's fail bit. Input left over after the format is not an error.
\<close>

definition get_number :: "nat \<Rightarrow> int \<Rightarrow> int \<Rightarrow> string \<Rightarrow> (int \<times> string) option" where
  "get_number len lo hi s =
     (let ds = take len s; v = digits_value 0 ds
      in if length ds = len \<and> (\<forall>c \<in> set ds. is_digit c) \<and> lo \<le> v \<and> v \<le> hi
         then Some (v, drop len s) else None)"

definition get_conversion :: "char \<Rightarrow> string \<Rightarrow> tm \<Rightarrow> (tm \<times> string) option" where
  "get_conversion c s t =
     (if c = CHR ''Y'' then map_option (\<lambda>(v, r). (t\<lparr>tm_year := v - 1900\<rparr>, r)) (get_number 4 0 9999 s)
      else if c = CHR ''m'' then map_option (\<lambda>(v, r). (t\<lparr>tm_mon := v - 1\<rparr>, r)) (get_number 2 1 12 s)
      else if c = CHR ''d'' then map_option (\<lambda>(v, r). (t\<lparr>tm_mday := v\<rparr>, r)) (get_number 2 1 31 s)
      else if c = CHR ''H'' then map_option (\<lambda>(v, r). (t\<lparr>tm_hour := v\<rparr>, r)) (get_number 2 0 23 s)
      else if c = CHR ''M'' then map_option (\<lambda>(v, r). (t\<lparr>tm_min := v\<rparr>, r)) (get_number 2 0 59 s)
      else if c = CHR ''S'' then map_option (\<lambda>(v, r). (t\<lparr>tm_sec := v\<rparr>, r)) (get_number 2 0 60 s)
      else None)"

fun get_time :: "string \<Rightarrow> string \<Rightarrow> tm \<Rightarrow> tm option" where
  "get_time [] s t = Some t"
| "get_time [c] s t =
     (if is_space c then Some t
      else if c = CHR ''%'' then None
      else if s \<noteq> [] \<and> hd s = c then Some t else None)"
| "get_time (c # d # fmt) s t =
     (if c = CHR ''%'' then
        (case get_conversion d s t of None \<Rightarrow> None | Some (t', rest) \<Rightarrow> get_time fmt rest t')
      else if is_space c then get_time (d # fmt) (dropWhile is_space s) t
      else if s \<noteq> [] \<and> hd s = c then get_time (d # fmt) (tl s) t
      else None)"

section \<open>DateTimeUtils\<close>

definition ticks_per_second :: int where
  "ticks_per_second = 1000000000"

text \<open>\<^verbatim>\<open>system_clock::to_time_t\<close> truncates towards zero.\<close>

definition to_time_t :: "Date \<Rightarrow> int" where
  "to_time_t tp = (if 0 \<le> tp then tp div ticks_per_second else - ((- tp) div ticks_per_second))"

definition from_time_t :: "int \<Rightarrow> Date" where
  "from_time_t t = t * ticks_per_second"

definition formatDateTime :: "Date \<Rightarrow> string \<Rightarrow> string" where
  "formatDateTime tp fmt = put_time (localtime (to_time_t tp)) fmt"

definition formatDate :: "Date \<Rightarrow> string \<Rightarrow> string" where
  "formatDate tp fmt = formatDateTime tp fmt"

definition zero_tm :: tm where
  "zero_tm = \<lparr>tm_sec = 0, tm_min = 0, tm_hour = 0, tm_mday = 0, tm_mon = 0, tm_year = 0\<rparr>"

definition parseDate :: "string \<Rightarrow> string \<Rightarrow> Date option" where
  "parseDate date_str fmt =
     (case get_time fmt date_str zero_tm of
        None \<Rightarrow> None
      | Some tm_val \<Rightarrow>
          (let time_t_val = mktime (tm_val\<lparr>tm_hour := 0, tm_min := 0, tm_sec := 0\<rparr>)
           in if time_t_val = - 1 then None else Some (from_time_t time_t_val)))"

definition addDays :: "Date \<Rightarrow> int \<Rightarrow> Date" where
  "addDays tp days = tp + (days * 24) * 3600 * ticks_per_second"

text \<open>\<^verbatim>\<open>today()\<close> reads the clock; the reading is the argument.\<close>

definition today :: "Date \<Rightarrow> Date" where
  "today now_tp =
     from_time_t (mktime ((localtime (to_time_t now_tp))\<lparr>tm_hour := 0, tm_min := 0, tm_sec := 0\<rparr>))"

definition date_format :: string where
  "date_format = ''%Y-%m-%d''"

definition date_time_format :: string where
  "date_time_format = ''%Y-%m-%d %H:%M:%S''"

section \<open>FilePersistenceService\<close>

text \<open>
  The state of the backend is the directory it was constructed with and the files of the
  disk, a map from paths to contents (\<open>None\<close>: no such file). \<open>disk_writable\<close> tells
  whether \<^verbatim>\<open>std::ofstream\<close> can open a file of the directory for writing.
\<close>

record FilePersistenceService =
  m_data_dir :: string
  disk :: "string \<Rightarrow> string option"
  disk_writable :: bool


definition m_authors_file :: string where "m_authors_file = ''authors.csv''"
definition m_users_file :: string where "m_users_file = ''users.csv''"
definition m_items_file :: string where "m_items_file = ''items.csv''"
definition m_loans_file :: string where "m_loans_file = ''loans.csv''"

definition COMMA_PLACEHOLDER :: char where "COMMA_PLACEHOLDER = CHR 0x1E"
definition QUOTE_PLACEHOLDER :: char where "QUOTE_PLACEHOLDER = CHR 0x1F"

definition escapeCsvField :: "string \<Rightarrow> string" where
  "escapeCsvField field =
     std_replace CHR '','' COMMA_PLACEHOLDER (std_replace CHR 0x22 QUOTE_PLACEHOLDER field)"

definition unescapeCsvField :: "string \<Rightarrow> string" where
  "unescapeCsvField field =
     std_replace COMMA_PLACEHOLDER CHR '','' (std_replace QUOTE_PLACEHOLDER CHR 0x22 field)"

definition read_record :: "string \<Rightarrow> string list" where
  "read_record line = map unescapeCsvField (getline_all CHR '','' line)"

definition read_records :: "string \<Rightarrow> string list list" where
  "read_records content = map read_record (filter (\<lambda>line. line \<noteq> []) (getline_all CHR 0x0A content))"

definition readCsvFile :: "FilePersistenceService \<Rightarrow> string \<Rightarrow> string list list" where
  "readCsvFile fs filename =
     (case disk fs (m_data_dir fs @ filename) of None \<Rightarrow> [] | Some content \<Rightarrow> read_records content)"

fun write_fields :: "string list \<Rightarrow> string" where
  "write_fields [] = []"
| "write_fields [f] = escapeCsvField f"
| "write_fields (f # g # fs) = escapeCsvField f @ '','' @ write_fields (g # fs)"

definition write_record :: "string list \<Rightarrow> string" where
  "write_record r = write_fields r @ [CHR 0x0A]"

definition write_records :: "string list list \<Rightarrow> string" where
  "write_records data = concat (map write_record data)"

definition writeCsvFile ::
  "FilePersistenceService \<Rightarrow> string \<Rightarrow> string list list \<Rightarrow> exn + FilePersistenceService" where
  "writeCsvFile fs filename data =
     (if \<not> disk_writable fs
      then Inl (OperationFailedException
                  (''Could not open file '' @ (m_data_dir fs @ filename) @ '' for writing.''))
      else Inr (fs\<lparr>disk := (disk fs)(m_data_dir fs @ filename \<mapsto> write_records data)\<rparr>))"

text \<open>
  The loop of \<^verbatim>\<open>saveAuthor\<close> and \<^verbatim>\<open>saveUser\<close>: the first row that is not empty and
  whose field 0 is the id gets its field 1 assigned. The assignment is
  \<^verbatim>\<open>record_fields[1] = ...\<close> on a \<^verbatim>\<open>std::vector\<close>; on a row of one field it is
  outside the vector. The result is whether a row was found, and the rows.
\<close>

fun assign_name :: "EntityId \<Rightarrow> string \<Rightarrow> string list list \<Rightarrow> exn + bool \<times> string list list" where
  "assign_name i n [] = Inr (False, [])"
| "assign_name i n (record_fields # rest) =
     (if record_fields \<noteq> [] \<and> record_fields ! 0 = i then
        (if 1 < length record_fields then Inr (True, record_fields[1 := n] # rest)
         else Inl vector_index_out_of_range)
      else (case assign_name i n rest of
              Inl e \<Rightarrow> Inl e
            | Inr (found, rest') \<Rightarrow> Inr (found, record_fields # rest')))"

text \<open>
  The loop of \<^verbatim>\<open>saveLibraryItem\<close> and \<^verbatim>\<open>updateLoanRecord\<close>: the first such row is
  replaced as a whole.
\<close>

fun assign_record :: "EntityId \<Rightarrow> string list \<Rightarrow> string list list \<Rightarrow> bool \<times> string list list" where
  "assign_record i new_fields [] = (False, [])"
| "assign_record i new_fields (record_fields # rest) =
     (if record_fields \<noteq> [] \<and> record_fields ! 0 = i then (True, new_fields # rest)
      else (case assign_record i new_fields rest of
              (found, rest') \<Rightarrow> (found, record_fields # rest')))"

definition remove_records :: "EntityId \<Rightarrow> string list list \<Rightarrow> string list list" where
  "remove_records i data =
     filter (\<lambda>record_fields. \<not> (record_fields \<noteq> [] \<and> record_fields ! 0 = i)) data"

subsection \<open>Authors\<close>

definition File_saveAuthor ::
  "FilePersistenceService \<Rightarrow> Author option \<Rightarrow> exn + FilePersistenceService" where
  "File_saveAuthor fs author =
     (case author of
        None \<Rightarrow> Inr fs
      | Some a \<Rightarrow>
          (case assign_name (author_id a) (author_name a) (readCsvFile fs m_authors_file) of
             Inl e \<Rightarrow> Inl e
           | Inr (found, all_authors_data) \<Rightarrow>
               writeCsvFile fs m_authors_file
                 (if found then all_authors_data
                  else all_authors_data @ [[author_id a, author_name a]])))"

fun loadAuthor_loop :: "EntityId \<Rightarrow> string list list \<Rightarrow> exn + Author option" where
  "loadAuthor_loop i [] = Inr None"
| "loadAuthor_loop i (flds # rest) =
     (if length flds = 2 \<and> flds ! 0 = i then
        (case new_Author (flds ! 0) (flds ! 1) of Inl e \<Rightarrow> Inl e | Inr a \<Rightarrow> Inr (Some a))
      else loadAuthor_loop i rest)"

definition File_loadAuthor :: "FilePersistenceService \<Rightarrow> EntityId \<Rightarrow> exn + Author option" where
  "File_loadAuthor fs i = loadAuthor_loop i (readCsvFile fs m_authors_file)"




subsection \<open>Library items\<close>

fun int_of_status :: "AvailabilityStatus \<Rightarrow> int" where
  "int_of_status AVAILABLE = 0"
| "int_of_status BORROWED = 1"
| "int_of_status RESERVED = 2"
| "int_of_status MAINTENANCE = 3"
| "int_of_status (UNNAMED_STATUS n) = n"

definition status_of_int :: "int \<Rightarrow> AvailabilityStatus" where
  "status_of_int n =
     (if n = 0 then AVAILABLE else if n = 1 then BORROWED else if n = 2 then RESERVED
      else if n = 3 then MAINTENANCE else UNNAMED_STATUS n)"

fun what :: "exn \<Rightarrow> string" where
  "what (InvalidArgumentException m) = m"
| "what (NotFoundException m) = m"
| "what (OperationFailedException m) = m"
| "what (std_invalid_argument m) = m"
| "what (std_out_of_range m) = m"
| "what vector_index_out_of_range = []"

definition book_fields :: "Book \<Rightarrow> string list" where
  "book_fields book =
     [book_id book, ''Book'', book_title book,
      (case book_author book of Some a \<Rightarrow> author_id a | None \<Rightarrow> []),
      book_isbn book,
      to_string (book_publication_year book),
      to_string (int_of_status (book_availability_status book))]"

definition File_saveLibraryItem ::
  "FilePersistenceService \<Rightarrow> Book option \<Rightarrow> exn + FilePersistenceService" where
  "File_saveLibraryItem fs item =
     (case item of
        None \<Rightarrow> Inr fs
      | Some book \<Rightarrow>
          (case assign_record (book_id book) (book_fields book) (readCsvFile fs m_items_file) of
             (found, all_items_data) \<Rightarrow>
               writeCsvFile fs m_items_file
                 (if found then all_items_data else all_items_data @ [book_fields book])))"

text \<open>
  The \<^verbatim>\<open>try\<close> block that rebuilds a book from a row of seven fields, with the lines it
  writes to \<^verbatim>\<open>std::cerr\<close>. It is shared by \<^verbatim>\<open>loadLibraryItem\<close> and
  \<^verbatim>\<open>loadAllLibraryItems\<close>, which differ in the text of the last message only
  (\<open>where_text\<close>). Every exception raised inside the block is caught by its handler for
  \<^verbatim>\<open>std::exception\<close>, which logs it and yields no book.
\<close>

definition book_of_fields ::
  "FilePersistenceService \<Rightarrow> string \<Rightarrow> string list \<Rightarrow> string list \<times> Book option" where
  "book_of_fields fs where_text flds =
     (let caught = (\<lambda>log e. (log @ [where_text @ flds ! 0 @ '': '' @ what e], None));
          warn = ''Warning: Author ID '' @ [CHR 0x27] @ flds ! 3 @ [CHR 0x27]
                   @ '' not found for book '' @ [CHR 0x27] @ flds ! 0 @ [CHR 0x27] @ ''.'';
          could_not = ''FilePersistenceService: Could not load author '' @ flds ! 3
                   @ '' for book '' @ flds ! 0
      in case (if flds ! 3 \<noteq> [] then File_loadAuthor fs (flds ! 3) else Inr None) of
           Inl e \<Rightarrow> caught [] e
         | Inr author \<Rightarrow>
             (let log = (if flds ! 3 \<noteq> [] \<and> author = None then [warn, could_not] else [])
              in case stoi (flds ! 5) of
                   Inl e \<Rightarrow> caught log e
                 | Inr year \<Rightarrow>
                     (case stoi (flds ! 6) of
                        Inl e \<Rightarrow> caught log e
                      | Inr status \<Rightarrow>
                          (case new_Book (flds ! 0) (flds ! 2) author (flds ! 4) year
                                  (status_of_int status) of
                             Inl e \<Rightarrow> caught log e
                           | Inr book \<Rightarrow> (log, Some book)))))"

fun loadLibraryItem_loop ::
  "FilePersistenceService \<Rightarrow> EntityId \<Rightarrow> string list list \<Rightarrow> string list \<times> Book option" where
  "loadLibraryItem_loop fs i [] = ([], None)"
| "loadLibraryItem_loop fs i (flds # rest) =
     (if 2 \<le> length flds \<and> flds ! 0 = i \<and> flds ! 1 = ''Book'' \<and> length flds = 7
      then book_of_fields fs ''Error parsing book record for ID '' flds
      else loadLibraryItem_loop fs i rest)"

definition File_loadLibraryItem_logged ::
  "FilePersistenceService \<Rightarrow> EntityId \<Rightarrow> string list \<times> Book option" where
  "File_loadLibraryItem_logged fs i = loadLibraryItem_loop fs i (readCsvFile fs m_items_file)"

definition File_loadLibraryItem :: "FilePersistenceService \<Rightarrow> EntityId \<Rightarrow> Book option" where
  "File_loadLibraryItem fs i = snd (File_loadLibraryItem_logged fs i)"

fun loadAllLibraryItems_loop :: "FilePersistenceService \<Rightarrow> string list list \<Rightarrow> Book list" where
  "loadAllLibraryItems_loop fs [] = []"
| "loadAllLibraryItems_loop fs (flds # rest) =
     (if 2 \<le> length flds \<and> flds ! 1 = ''Book'' \<and> length flds = 7 then
        (case snd (book_of_fields fs (''Error parsing book record in '' @ m_items_file @ '' for ID '')
                     flds) of
           None \<Rightarrow> loadAllLibraryItems_loop fs rest
         | Some book \<Rightarrow> book # loadAllLibraryItems_loop fs rest)
      else loadAllLibraryItems_loop fs rest)"

definition File_loadAllLibraryItems :: "FilePersistenceService \<Rightarrow> Book list" where
  "File_loadAllLibraryItems fs = loadAllLibraryItems_loop fs (readCsvFile fs m_items_file)"

definition File_deleteLibraryItem ::
  "FilePersistenceService \<Rightarrow> EntityId \<Rightarrow> exn + FilePersistenceService" where
  "File_deleteLibraryItem fs i =
     writeCsvFile fs m_items_file (remove_records i (readCsvFile fs m_items_file))"

subsection \<open>Users\<close>

definition File_saveUser :: "FilePersistenceService \<Rightarrow> User \<Rightarrow> exn + FilePersistenceService" where
  "File_saveUser fs user =
     (case assign_name (user_id user) (user_name user) (readCsvFile fs m_users_file) of
        Inl e \<Rightarrow> Inl e
      | Inr (found, all_users_data) \<Rightarrow>
          writeCsvFile fs m_users_file
            (if found then all_users_data
             else all_users_data @ [[user_id user, user_name user]]))"

fun loadUser_loop :: "EntityId \<Rightarrow> string list list \<Rightarrow> User option" where
  "loadUser_loop i [] = None"
| "loadUser_loop i (flds # rest) =
     (if length flds = 2 \<and> flds ! 0 = i then
        (case new_User (flds ! 0) (flds ! 1) of
           Inl e \<Rightarrow> loadUser_loop i rest
         | Inr u \<Rightarrow> Some u)
      else loadUser_loop i rest)"

definition File_loadUser :: "FilePersistenceService \<Rightarrow> EntityId \<Rightarrow> User option" where
  "File_loadUser fs i = loadUser_loop i (readCsvFile fs m_users_file)"

fun loadAllUsers_loop :: "string list list \<Rightarrow> User list" where
  "loadAllUsers_loop [] = []"
| "loadAllUsers_loop (flds # rest) =
     (if length flds = 2 then
        (case new_User (flds ! 0) (flds ! 1) of
           Inl e \<Rightarrow> loadAllUsers_loop rest
         | Inr u \<Rightarrow> u # loadAllUsers_loop rest)
      else loadAllUsers_loop rest)"

definition File_loadAllUsers :: "FilePersistenceService \<Rightarrow> User list" where
  "File_loadAllUsers fs = loadAllUsers_loop (readCsvFile fs m_users_file)"

definition File_deleteUser ::
  "FilePersistenceService \<Rightarrow> EntityId \<Rightarrow> exn + FilePersistenceService" where
  "File_deleteUser fs i =
     writeCsvFile fs m_users_file (remove_records i (readCsvFile fs m_users_file))"

subsection \<open>Loan records\<close>

definition loan_fields :: "LoanRecord \<Rightarrow> string list" where
  "loan_fields record =
     [lr_record_id record, lr_item_id record, lr_user_id record,
      formatDateTime (lr_loan_date record) date_time_format,
      formatDateTime (lr_due_date record) date_time_format,
      (case lr_return_date record of
         Some d \<Rightarrow> formatDateTime d date_time_format
       | None \<Rightarrow> [])]"

definition File_updateLoanRecord ::
  "FilePersistenceService \<Rightarrow> LoanRecord \<Rightarrow> exn + FilePersistenceService" where
  "File_updateLoanRecord fs record =
     (case assign_record (lr_record_id record) (loan_fields record) (readCsvFile fs m_loans_file) of
        (found, all_loans_data) \<Rightarrow>
          writeCsvFile fs m_loans_file
            (if found then all_loans_data else all_loans_data @ [loan_fields record]))"

definition File_saveLoanRecord ::
  "FilePersistenceService \<Rightarrow> LoanRecord \<Rightarrow> exn + FilePersistenceService" where
  "File_saveLoanRecord fs record = File_updateLoanRecord fs record"

text \<open>
  The \<^verbatim>\<open>try\<close> block that rebuilds a loan record from a row of six fields. \<open>None\<close>
  stands for each way the block gives no record and lets the loop go on: a loan or due
  date that does not parse (\<^verbatim>\<open>continue\<close>), or an exception of the constructor or of
  \<^verbatim>\<open>setReturnDate\<close>, caught and logged. A return date that does not parse is logged and
  the record is given without it.
\<close>

definition loan_of_fields :: "string list \<Rightarrow> LoanRecord option" where
  "loan_of_fields flds =
     (case parseDate (flds ! 3) date_time_format of
        None \<Rightarrow> None
      | Some loan_date \<Rightarrow>
          (case parseDate (flds ! 4) date_time_format of
             None \<Rightarrow> None
           | Some due_date \<Rightarrow>
               (case new_LoanRecord (flds ! 0) (flds ! 1) (flds ! 2) loan_date due_date of
                  Inl e \<Rightarrow> None
                | Inr loan \<Rightarrow>
                    (if flds ! 5 \<noteq> [] then
                       (case parseDate (flds ! 5) date_time_format of
                          None \<Rightarrow> Some loan
                        | Some return_date \<Rightarrow>
                            (case setReturnDate loan return_date of
                               Inl e \<Rightarrow> None
                             | Inr loan' \<Rightarrow> Some loan'))
                     else Some loan))))"

fun loadLoanRecord_loop :: "EntityId \<Rightarrow> string list list \<Rightarrow> LoanRecord option" where
  "loadLoanRecord_loop i [] = None"
| "loadLoanRecord_loop i (flds # rest) =
     (if length flds = 6 \<and> flds ! 0 = i then
        (case loan_of_fields flds of
           None \<Rightarrow> loadLoanRecord_loop i rest
         | Some loan \<Rightarrow> Some loan)
      else loadLoanRecord_loop i rest)"

definition File_loadLoanRecord :: "FilePersistenceService \<Rightarrow> EntityId \<Rightarrow> LoanRecord option" where
  "File_loadLoanRecord fs i = loadLoanRecord_loop i (readCsvFile fs m_loans_file)"

fun loadAllLoanRecords_loop :: "string list list \<Rightarrow> LoanRecord list" where
  "loadAllLoanRecords_loop [] = []"
| "loadAllLoanRecords_loop (flds # rest) =
     (if length flds = 6 then
        (case loan_of_fields flds of
           None \<Rightarrow> loadAllLoanRecords_loop rest
         | Some loan \<Rightarrow> loan # loadAllLoanRecords_loop rest)
      else loadAllLoanRecords_loop rest)"

definition File_loadAllLoanRecords :: "FilePersistenceService \<Rightarrow> LoanRecord list" where
  "File_loadAllLoanRecords fs = loadAllLoanRecords_loop (readCsvFile fs m_loans_file)"

definition File_loadLoanRecordsByUserId ::
  "FilePersistenceService \<Rightarrow> EntityId \<Rightarrow> LoanRecord list" where
  "File_loadLoanRecordsByUserId fs u = filter (\<lambda>loan. lr_user_id loan = u) (File_loadAllLoanRecords fs)"

definition File_loadLoanRecordsByItemId ::
  "FilePersistenceService \<Rightarrow> EntityId \<Rightarrow> LoanRecord list" where
  "File_loadLoanRecordsByItemId fs i = filter (\<lambda>loan. lr_item_id loan = i) (File_loadAllLoanRecords fs)"

definition File_deleteLoanRecord ::
  "FilePersistenceService \<Rightarrow> EntityId \<Rightarrow> exn + FilePersistenceService" where
  "File_deleteLoanRecord fs i =
     writeCsvFile fs m_loans_file (remove_records i (readCsvFile fs m_loans_file))"

section \<open>InMemoryPersistenceService\<close>

text \<open>
  A \<^verbatim>\<open>std::map<EntityId, T>\<close> is the list of its entries in the order of iteration, the
  order of the keys. \<open>map_assign\<close> is what the backend's save methods do to a map (assign
  to the entry of the key, or insert a new entry at its place), \<open>map_find\<close> is
  \<^verbatim>\<open>find\<close> and \<open>map_erase\<close> is \<^verbatim>\<open>erase\<close>.
\<close>

fun map_assign :: "EntityId \<Rightarrow> 'v \<Rightarrow> (EntityId \<times> 'v) list \<Rightarrow> (EntityId \<times> 'v) list" where
  "map_assign k v [] = [(k, v)]"
| "map_assign k v ((k', v') # rest) =
     (if k = k' then (k, v) # rest
      else if k < k' then (k, v) # (k', v') # rest
      else (k', v') # map_assign k v rest)"

definition map_find :: "EntityId \<Rightarrow> (EntityId \<times> 'v) list \<Rightarrow> 'v option" where
  "map_find k m = map_of m k"

definition map_erase :: "EntityId \<Rightarrow> (EntityId \<times> 'v) list \<Rightarrow> (EntityId \<times> 'v) list" where
  "map_erase k m = filter (\<lambda>entry. fst entry \<noteq> k) m"

record InMemoryPersistenceService =
  m_authors :: "(EntityId \<times> Author) list"
  m_items :: "(EntityId \<times> Book) list"
  m_users :: "(EntityId \<times> User) list"
  m_loan_records :: "(EntityId \<times> LoanRecord) list"


text \<open>
  \<^verbatim>\<open>Book::clone\<close> builds a book with the constructor from the fields of the book it is
  called on; these have passed the constructor's checks before and every setter keeps them,
  so the copy is the book itself, as a value.
\<close>

definition clone :: "Book \<Rightarrow> Book" where
  "clone book = book"

definition InMemory_saveAuthor ::
  "InMemoryPersistenceService \<Rightarrow> Author option \<Rightarrow> InMemoryPersistenceService" where
  "InMemory_saveAuthor mem author =
     (case author of
        None \<Rightarrow> mem
      | Some a \<Rightarrow> mem\<lparr>m_authors := map_assign (author_id a) a (m_authors mem)\<rparr>)"

definition InMemory_loadAuthor :: "InMemoryPersistenceService \<Rightarrow> EntityId \<Rightarrow> Author option" where
  "InMemory_loadAuthor mem i = map_find i (m_authors mem)"



definition InMemory_saveLibraryItem ::
  "InMemoryPersistenceService \<Rightarrow> Book option \<Rightarrow> InMemoryPersistenceService" where
  "InMemory_saveLibraryItem mem item =
     (case item of
        None \<Rightarrow> mem
      | Some book \<Rightarrow> mem\<lparr>m_items := map_assign (book_id book) (clone book) (m_items mem)\<rparr>)"

definition InMemory_loadLibraryItem :: "InMemoryPersistenceService \<Rightarrow> EntityId \<Rightarrow> Book option" where
  "InMemory_loadLibraryItem mem i = map_option clone (map_find i (m_items mem))"

definition InMemory_loadAllLibraryItems :: "InMemoryPersistenceService \<Rightarrow> Book list" where
  "InMemory_loadAllLibraryItems mem = map (\<lambda>entry. clone (snd entry)) (m_items mem)"

definition InMemory_deleteLibraryItem ::
  "InMemoryPersistenceService \<Rightarrow> EntityId \<Rightarrow> InMemoryPersistenceService" where
  "InMemory_deleteLibraryItem mem i = mem\<lparr>m_items := map_erase i (m_items mem)\<rparr>"

definition InMemory_saveUser :: "InMemoryPersistenceService \<Rightarrow> User \<Rightarrow> InMemoryPersistenceService" where
  "InMemory_saveUser mem user = mem\<lparr>m_users := map_assign (user_id user) user (m_users mem)\<rparr>"

definition InMemory_loadUser :: "InMemoryPersistenceService \<Rightarrow> EntityId \<Rightarrow> User option" where
  "InMemory_loadUser mem i = map_find i (m_users mem)"

definition InMemory_loadAllUsers :: "InMemoryPersistenceService \<Rightarrow> User list" where
  "InMemory_loadAllUsers mem = map snd (m_users mem)"

definition InMemory_deleteUser ::
  "InMemoryPersistenceService \<Rightarrow> EntityId \<Rightarrow> InMemoryPersistenceService" where
  "InMemory_deleteUser mem i = mem\<lparr>m_users := map_erase i (m_users mem)\<rparr>"

definition InMemory_saveLoanRecord ::
  "InMemoryPersistenceService \<Rightarrow> LoanRecord \<Rightarrow> InMemoryPersistenceService" where
  "InMemory_saveLoanRecord mem record =
     mem\<lparr>m_loan_records := map_assign (lr_record_id record) record (m_loan_records mem)\<rparr>"

definition InMemory_updateLoanRecord ::
  "InMemoryPersistenceService \<Rightarrow> LoanRecord \<Rightarrow> InMemoryPersistenceService" where
  "InMemory_updateLoanRecord mem record =
     mem\<lparr>m_loan_records := map_assign (lr_record_id record) record (m_loan_records mem)\<rparr>"

definition InMemory_loadLoanRecord :: "InMemoryPersistenceService \<Rightarrow> EntityId \<Rightarrow> LoanRecord option" where
  "InMemory_loadLoanRecord mem i = map_find i (m_loan_records mem)"

definition InMemory_loadAllLoanRecords :: "InMemoryPersistenceService \<Rightarrow> LoanRecord list" where
  "InMemory_loadAllLoanRecords mem = map snd (m_loan_records mem)"

definition InMemory_loadLoanRecordsByUserId ::
  "InMemoryPersistenceService \<Rightarrow> EntityId \<Rightarrow> LoanRecord list" where
  "InMemory_loadLoanRecordsByUserId mem u =
     filter (\<lambda>record. lr_user_id record = u) (map snd (m_loan_records mem))"

definition InMemory_loadLoanRecordsByItemId ::
  "InMemoryPersistenceService \<Rightarrow> EntityId \<Rightarrow> LoanRecord list" where
  "InMemory_loadLoanRecordsByItemId mem i =
     filter (\<lambda>record. lr_item_id record = i) (map snd (m_loan_records mem))"

definition InMemory_deleteLoanRecord ::
  "InMemoryPersistenceService \<Rightarrow> EntityId \<Rightarrow> InMemoryPersistenceService" where
  "InMemory_deleteLoanRecord mem i = mem\<lparr>m_loan_records := map_erase i (m_loan_records mem)\<rparr>"

section \<open>CachingFilePersistenceService\<close>

record CachingFilePersistenceService =
  m_memory_store :: InMemoryPersistenceService
  m_file_store :: FilePersistenceService





section \<open>IPersistenceService\<close>

text \<open>
  The interface and its virtual dispatch: a persistence service is one of the three
  backends whose storage is part of the program. (The fourth, for an SQL server, keeps its
  data in a database outside the program and is not modelled.) A loading method gives its
  result; a saving method gives the backend after the call, or the exception it raised, in
  which case it has written nothing.
\<close>

datatype IPersistenceService =
    InMemory InMemoryPersistenceService
  | File FilePersistenceService
  | Caching CachingFilePersistenceService

fun in_cache ::
  "(InMemoryPersistenceService \<Rightarrow> InMemoryPersistenceService) \<Rightarrow>
   CachingFilePersistenceService \<Rightarrow> IPersistenceService" where
  "in_cache f c = Caching (c\<lparr>m_memory_store := f (m_memory_store c)\<rparr>)"

fun saveAuthor :: "IPersistenceService \<Rightarrow> Author option \<Rightarrow> exn + IPersistenceService" where
  "saveAuthor (InMemory mem) a = Inr (InMemory (InMemory_saveAuthor mem a))"
| "saveAuthor (File fs) a = map_sum id File (File_saveAuthor fs a)"
| "saveAuthor (Caching c) a = Inr (in_cache (\<lambda>mem. InMemory_saveAuthor mem a) c)"

fun loadAuthor :: "IPersistenceService \<Rightarrow> EntityId \<Rightarrow> exn + Author option" where
  "loadAuthor (InMemory mem) i = Inr (InMemory_loadAuthor mem i)"
| "loadAuthor (File fs) i = File_loadAuthor fs i"
| "loadAuthor (Caching c) i = Inr (InMemory_loadAuthor (m_memory_store c) i)"



fun saveLibraryItem :: "IPersistenceService \<Rightarrow> Book option \<Rightarrow> exn + IPersistenceService" where
  "saveLibraryItem (InMemory mem) b = Inr (InMemory (InMemory_saveLibraryItem mem b))"
| "saveLibraryItem (File fs) b = map_sum id File (File_saveLibraryItem fs b)"
| "saveLibraryItem (Caching c) b = Inr (in_cache (\<lambda>mem. InMemory_saveLibraryItem mem b) c)"

fun loadLibraryItem :: "IPersistenceService \<Rightarrow> EntityId \<Rightarrow> Book option" where
  "loadLibraryItem (InMemory mem) i = InMemory_loadLibraryItem mem i"
| "loadLibraryItem (File fs) i = File_loadLibraryItem fs i"
| "loadLibraryItem (Caching c) i = InMemory_loadLibraryItem (m_memory_store c) i"

fun loadAllLibraryItems :: "IPersistenceService \<Rightarrow> Book list" where
  "loadAllLibraryItems (InMemory mem) = InMemory_loadAllLibraryItems mem"
| "loadAllLibraryItems (File fs) = File_loadAllLibraryItems fs"
| "loadAllLibraryItems (Caching c) = InMemory_loadAllLibraryItems (m_memory_store c)"

fun deleteLibraryItem :: "IPersistenceService \<Rightarrow> EntityId \<Rightarrow> exn + IPersistenceService" where
  "deleteLibraryItem (InMemory mem) i = Inr (InMemory (InMemory_deleteLibraryItem mem i))"
| "deleteLibraryItem (File fs) i = map_sum id File (File_deleteLibraryItem fs i)"
| "deleteLibraryItem (Caching c) i = Inr (in_cache (\<lambda>mem. InMemory_deleteLibraryItem mem i) c)"

fun saveUser :: "IPersistenceService \<Rightarrow> User \<Rightarrow> exn + IPersistenceService" where
  "saveUser (InMemory mem) u = Inr (InMemory (InMemory_saveUser mem u))"
| "saveUser (File fs) u = map_sum id File (File_saveUser fs u)"
| "saveUser (Caching c) u = Inr (in_cache (\<lambda>mem. InMemory_saveUser mem u) c)"

fun loadUser :: "IPersistenceService \<Rightarrow> EntityId \<Rightarrow> User option" where
  "loadUser (InMemory mem) i = InMemory_loadUser mem i"
| "loadUser (File fs) i = File_loadUser fs i"
| "loadUser (Caching c) i = InMemory_loadUser (m_memory_store c) i"

fun loadAllUsers :: "IPersistenceService \<Rightarrow> User list" where
  "loadAllUsers (InMemory mem) = InMemory_loadAllUsers mem"
| "loadAllUsers (File fs) = File_loadAllUsers fs"
| "loadAllUsers (Caching c) = InMemory_loadAllUsers (m_memory_store c)"

fun deleteUser :: "IPersistenceService \<Rightarrow> EntityId \<Rightarrow> exn + IPersistenceService" where
  "deleteUser (InMemory mem) i = Inr (InMemory (InMemory_deleteUser mem i))"
| "deleteUser (File fs) i = map_sum id File (File_deleteUser fs i)"
| "deleteUser (Caching c) i = Inr (in_cache (\<lambda>mem. InMemory_deleteUser mem i) c)"

fun saveLoanRecord :: "IPersistenceService \<Rightarrow> LoanRecord \<Rightarrow> exn + IPersistenceService" where
  "saveLoanRecord (InMemory mem) r = Inr (InMemory (InMemory_saveLoanRecord mem r))"
| "saveLoanRecord (File fs) r = map_sum id File (File_saveLoanRecord fs r)"
| "saveLoanRecord (Caching c) r = Inr (in_cache (\<lambda>mem. InMemory_saveLoanRecord mem r) c)"

fun updateLoanRecord :: "IPersistenceService \<Rightarrow> LoanRecord \<Rightarrow> exn + IPersistenceService" where
  "updateLoanRecord (InMemory mem) r = Inr (InMemory (InMemory_updateLoanRecord mem r))"
| "updateLoanRecord (File fs) r = map_sum id File (File_updateLoanRecord fs r)"
| "updateLoanRecord (Caching c) r = Inr (in_cache (\<lambda>mem. InMemory_updateLoanRecord mem r) c)"

fun loadLoanRecord :: "IPersistenceService \<Rightarrow> EntityId \<Rightarrow> LoanRecord option" where
  "loadLoanRecord (InMemory mem) i = InMemory_loadLoanRecord mem i"
| "loadLoanRecord (File fs) i = File_loadLoanRecord fs i"
| "loadLoanRecord (Caching c) i = InMemory_loadLoanRecord (m_memory_store c) i"

fun loadLoanRecordsByUserId :: "IPersistenceService \<Rightarrow> EntityId \<Rightarrow> LoanRecord list" where
  "loadLoanRecordsByUserId (InMemory mem) u = InMemory_loadLoanRecordsByUserId mem u"
| "loadLoanRecordsByUserId (File fs) u = File_loadLoanRecordsByUserId fs u"
| "loadLoanRecordsByUserId (Caching c) u = InMemory_loadLoanRecordsByUserId (m_memory_store c) u"

fun loadLoanRecordsByItemId :: "IPersistenceService \<Rightarrow> EntityId \<Rightarrow> LoanRecord list" where
  "loadLoanRecordsByItemId (InMemory mem) i = InMemory_loadLoanRecordsByItemId mem i"
| "loadLoanRecordsByItemId (File fs) i = File_loadLoanRecordsByItemId fs i"
| "loadLoanRecordsByItemId (Caching c) i = InMemory_loadLoanRecordsByItemId (m_memory_store c) i"

fun loadAllLoanRecords :: "IPersistenceService \<Rightarrow> LoanRecord list" where
  "loadAllLoanRecords (InMemory mem) = InMemory_loadAllLoanRecords mem"
| "loadAllLoanRecords (File fs) = File_loadAllLoanRecords fs"
| "loadAllLoanRecords (Caching c) = InMemory_loadAllLoanRecords (m_memory_store c)"

fun deleteLoanRecord :: "IPersistenceService \<Rightarrow> EntityId \<Rightarrow> exn + IPersistenceService" where
  "deleteLoanRecord (InMemory mem) i = Inr (InMemory (InMemory_deleteLoanRecord mem i))"
| "deleteLoanRecord (File fs) i = map_sum id File (File_deleteLoanRecord fs i)"
| "deleteLoanRecord (Caching c) i = Inr (in_cache (\<lambda>mem. InMemory_deleteLoanRecord mem i) c)"

section \<open>UserService and CatalogService\<close>

text \<open>
  Both services hold a pointer to the persistence service and no state of their own; the
  application gives all its services the same persistence service, so each method takes
  it as its state.
\<close>

definition findUserById :: "IPersistenceService \<Rightarrow> EntityId \<Rightarrow> exn + User option" where
  "findUserById ps uid =
     (if uid = [] then Inl (InvalidArgumentException ''User ID cannot be empty for findUserById.'')
      else Inr (loadUser ps uid))"

definition findItemById :: "IPersistenceService \<Rightarrow> EntityId \<Rightarrow> exn + Book option" where
  "findItemById ps iid =
     (if iid = [] then Inl (InvalidArgumentException ''Item ID cannot be empty for findItemById.'')
      else Inr (loadLibraryItem ps iid))"

definition updateItemStatus ::
  "IPersistenceService \<Rightarrow> EntityId \<Rightarrow> AvailabilityStatus \<Rightarrow> exn + IPersistenceService" where
  "updateItemStatus ps iid new_status =
     (if iid = [] then Inl (InvalidArgumentException ''Item ID cannot be empty for updateItemStatus.'')
      else case loadLibraryItem ps iid of
             None \<Rightarrow> Inl (NotFoundException
                            (''Item with ID '' @ [CHR 0x27] @ iid @ [CHR 0x27]
                               @ '' not found for status update.''))
           | Some item_to_update \<Rightarrow>
               saveLibraryItem ps (Some (setAvailabilityStatus item_to_update new_status)))"

section \<open>ConsoleNotificationService\<close>

text \<open>
  The notifications delivered so far, each the user id and the message written to
  \<^verbatim>\<open>std::cout\<close>. A call with an empty user id or an empty message writes an error to
  \<^verbatim>\<open>std::cerr\<close> and delivers nothing.
\<close>

definition sendNotification ::
  "(EntityId \<times> string) list \<Rightarrow> EntityId \<Rightarrow> string \<Rightarrow> (EntityId \<times> string) list" where
  "sendNotification delivered uid message =
     (if uid = [] then delivered
      else if message = [] then delivered
      else delivered @ [(uid, message)])"

section \<open>LoanService\<close>

record LoanService =
  m_persistence_service :: IPersistenceService
  m_notification_service :: "(EntityId \<times> string) list"
  m_default_loan_duration_days :: int
  m_next_loan_id_counter :: int

definition new_LoanService :: "IPersistenceService \<Rightarrow> int \<Rightarrow> exn + LoanService" where
  "new_LoanService ps default_loan_duration_days =
     (if default_loan_duration_days \<le> 0
      then Inl (std_invalid_argument ''Default loan duration must be positive.'')
      else Inr \<lparr>m_persistence_service = ps, m_notification_service = [],
                m_default_loan_duration_days = default_loan_duration_days,
                m_next_loan_id_counter = 0\<rparr>)"

definition generateLoanRecordId :: "LoanService \<Rightarrow> EntityId \<times> LoanService" where
  "generateLoanRecordId s =
     (''loan_'' @ to_string (m_next_loan_id_counter s + 1),
      s\<lparr>m_next_loan_id_counter := m_next_loan_id_counter s + 1\<rparr>)"

definition getActiveLoansForUser :: "LoanService \<Rightarrow> EntityId \<Rightarrow> exn + LoanRecord list" where
  "getActiveLoansForUser s uid =
     (if uid = [] then Inl (InvalidArgumentException ''User ID cannot be empty.'')
      else Inr (filter (\<lambda>record. lr_return_date record = None)
                  (loadLoanRecordsByUserId (m_persistence_service s) uid)))"

definition quoted :: "string \<Rightarrow> string" where
  "quoted s = [CHR 0x27] @ s @ [CHR 0x27]"

text \<open>
  A method of the service gives what it returns, or the exception it raised, and the
  service after the call: an exception does not undo what the method did before it.
  The reading of the clock (\<^verbatim>\<open>now()\<close>) is an argument.
\<close>

definition borrowItem ::
  "LoanService \<Rightarrow> Date \<Rightarrow> EntityId \<Rightarrow> EntityId \<Rightarrow> (exn + LoanRecord) \<times> LoanService" where
  "borrowItem s now_tp uid iid =
     (let ps = m_persistence_service s in
      if uid = [] \<or> iid = []
      then (Inl (InvalidArgumentException ''User ID and Item ID cannot be empty for borrowing.''), s)
      else case findUserById ps uid of
        Inl e \<Rightarrow> (Inl e, s)
      | Inr None \<Rightarrow> (Inl (NotFoundException (''User with ID '' @ quoted uid @ '' not found.'')), s)
      | Inr (Some user) \<Rightarrow>
      (case findItemById ps iid of
        Inl e \<Rightarrow> (Inl e, s)
      | Inr None \<Rightarrow>
          (Inl (NotFoundException (''Library item with ID '' @ quoted iid @ '' not found.'')), s)
      | Inr (Some item) \<Rightarrow>
      if book_availability_status item \<noteq> AVAILABLE
      then (Inl (OperationFailedException
                   (''Item '' @ quoted iid @ '' is not available for borrowing. Status: ''
                      @ to_string (int_of_status (book_availability_status item)))), s)
      else case getActiveLoansForUser s uid of
        Inl e \<Rightarrow> (Inl e, s)
      | Inr user_loans \<Rightarrow>
      if find (\<lambda>lr. lr_item_id lr = iid) user_loans \<noteq> None
      then (Inl (OperationFailedException
                   (''User '' @ quoted uid @ '' has already borrowed item '' @ quoted iid @ ''.'')), s)
      else
        (let loan_date = now_tp;
             due_date = addDays loan_date (m_default_loan_duration_days s);
             (loan_id, s1) = generateLoanRecordId s
         in case new_LoanRecord loan_id iid uid loan_date due_date of
              Inl e \<Rightarrow> (Inl e, s1)
            | Inr new_loan \<Rightarrow>
            (case saveLoanRecord ps new_loan of
              Inl e \<Rightarrow> (Inl e, s1)
            | Inr ps1 \<Rightarrow>
            (case updateItemStatus ps1 iid BORROWED of
              Inl e \<Rightarrow> (Inl e, s1\<lparr>m_persistence_service := ps1\<rparr>)
            | Inr ps2 \<Rightarrow> (Inr new_loan, s1\<lparr>m_persistence_service := ps2\<rparr>))))))"

definition returnItem ::
  "LoanService \<Rightarrow> Date \<Rightarrow> EntityId \<Rightarrow> EntityId \<Rightarrow> exn option \<times> LoanService" where
  "returnItem s now_tp uid iid =
     (let ps = m_persistence_service s in
      if uid = [] \<or> iid = []
      then (Some (InvalidArgumentException ''User ID and Item ID cannot be empty for returning.''), s)
      else case find (\<lambda>loan. lr_user_id loan = uid \<and> lr_return_date loan = None)
                  (loadLoanRecordsByItemId ps iid) of
        None \<Rightarrow>
          (Some (NotFoundException
                   (''No active loan found for user '' @ quoted uid @ '' and item '' @ quoted iid
                      @ ''.'')), s)
      | Some active_loan \<Rightarrow>
      (case setReturnDate active_loan now_tp of
        Inl e \<Rightarrow> (Some e, s)
      | Inr returned_loan \<Rightarrow>
      (case updateLoanRecord ps returned_loan of
        Inl e \<Rightarrow> (Some e, s)
      | Inr ps1 \<Rightarrow>
      (case updateItemStatus ps1 iid AVAILABLE of
        Inl e \<Rightarrow> (Some e, s\<lparr>m_persistence_service := ps1\<rparr>)
      | Inr ps2 \<Rightarrow> (None, s\<lparr>m_persistence_service := ps2\<rparr>)))))"

definition is_overdue :: "Date \<Rightarrow> LoanRecord \<Rightarrow> bool" where
  "is_overdue today_tp loan \<longleftrightarrow> lr_return_date loan = None \<and> lr_due_date loan < today_tp"

definition overdue_message :: "string \<Rightarrow> string \<Rightarrow> LoanRecord \<Rightarrow> string" where
  "overdue_message user_name_text item_title loan =
     ''Dear '' @ user_name_text @ '', the item '' @ quoted item_title
       @ '' (Loan ID: '' @ lr_record_id loan @ '') was due on ''
       @ formatDate (lr_due_date loan) date_format
       @ ''. Please return it as soon as possible.''"

text \<open>The body of the loop of \<^verbatim>\<open>processOverdueItems\<close> for one overdue loan.\<close>

definition notify_overdue ::
  "IPersistenceService \<Rightarrow> (EntityId \<times> string) list \<Rightarrow> LoanRecord \<Rightarrow>
   exn + (EntityId \<times> string) list" where
  "notify_overdue ps delivered loan =
     (case findUserById ps (lr_user_id loan) of
        Inl e \<Rightarrow> Inl e
      | Inr user_opt \<Rightarrow>
      (case findItemById ps (lr_item_id loan) of
        Inl e \<Rightarrow> Inl e
      | Inr item_opt \<Rightarrow>
          Inr (sendNotification delivered (lr_user_id loan)
                 (overdue_message
                    (case user_opt of Some user \<Rightarrow> user_name user | None \<Rightarrow> ''Unknown User'')
                    (case item_opt of Some item \<Rightarrow> book_title item | None \<Rightarrow> ''Unknown Item'')
                    loan))))"

fun processOverdueItems_loop ::
  "IPersistenceService \<Rightarrow> Date \<Rightarrow> (EntityId \<times> string) list \<Rightarrow> LoanRecord list \<Rightarrow>
   exn option \<times> (EntityId \<times> string) list" where
  "processOverdueItems_loop ps today_tp delivered [] = (None, delivered)"
| "processOverdueItems_loop ps today_tp delivered (loan # rest) =
     (if is_overdue today_tp loan then
        (case notify_overdue ps delivered loan of
           Inl e \<Rightarrow> (Some e, delivered)
         | Inr delivered' \<Rightarrow> processOverdueItems_loop ps today_tp delivered' rest)
      else processOverdueItems_loop ps today_tp delivered rest)"

definition processOverdueItems :: "LoanService \<Rightarrow> Date \<Rightarrow> exn option \<times> LoanService" where
  "processOverdueItems s now_tp =
     (case processOverdueItems_loop (m_persistence_service s) (today now_tp)
             (m_notification_service s) (loadAllLoanRecords (m_persistence_service s)) of
        (e, delivered) \<Rightarrow> (e, s\<lparr>m_notification_service := delivered\<rparr>))"

section \<open>Notions used in the statements and proofs\<close>


definition trim_row :: "string list \<Rightarrow> string list" where
  "trim_row r = (if r \<noteq> [] \<and> last r = [] then butlast r else r)"

definition row_ids :: "FilePersistenceService \<Rightarrow> string \<Rightarrow> EntityId set" where
  "row_ids fs filename = (\<lambda>r. r ! 0) ` set (readCsvFile fs filename)"



section \<open>The loan record keeps its dates in order\<close>

lemma new_LoanRecord_invariant:
  "new_LoanRecord rid iid uid loan due = Inr r \<Longrightarrow> loan_record_invariant r"
  by (auto simp: new_LoanRecord_def loan_record_invariant_def split: if_splits)

lemma new_LoanRecord_fields:
  "new_LoanRecord rid iid uid loan due = Inr r \<Longrightarrow>
     r = \<lparr>lr_record_id = rid, lr_item_id = iid, lr_user_id = uid,
          lr_loan_date = loan, lr_due_date = due, lr_return_date = None\<rparr>
     \<and> rid \<noteq> [] \<and> iid \<noteq> [] \<and> uid \<noteq> [] \<and> loan \<le> due"
  by (auto simp: new_LoanRecord_def split: if_splits)

lemma call_setter_invariant:
  "loan_record_invariant r \<Longrightarrow> loan_record_invariant (snd (call_setter r c))"
  by (cases c) (auto simp: setDueDate_def setReturnDate_def loan_record_invariant_def
      split: option.splits)

lemma call_setters_invariant:
  "loan_record_invariant r \<Longrightarrow> loan_record_invariant (call_setters r cs)"
proof (induction cs arbitrary: r)
  case Nil
  then show ?case by simp
next
  case (Cons c cs)
  from Cons.prems have "loan_record_invariant (snd (call_setter r c))"
    by (rule call_setter_invariant)
  then show ?case using Cons.IH by simp
qed

lemma call_setter_violates:
  "violates r c \<Longrightarrow> \<exists>m. call_setter r c = (Some (InvalidArgumentException m), r)"
  by (cases c) (auto simp: setDueDate_def setReturnDate_def)

lemma call_setter_accepts:
  "\<not> violates r c \<Longrightarrow> fst (call_setter r c) = None"
  by (cases c) (auto simp: setDueDate_def setReturnDate_def)

text \<open>
  C8. A loan record that its constructor has built satisfies, after any sequence of
  calls of \<^verbatim>\<open>setDueDate\<close> and \<^verbatim>\<open>setReturnDate\<close> (those that raise included, since
  they assign nothing): the due date is not before the loan date, and the return date,
  when there is one, is not before the loan date. A further call that would break this
  (a date before the loan date) raises \<^verbatim>\<open>InvalidArgumentException\<close> and leaves the
  record as it was; any other call raises nothing.
\<close>

theorem C8_loan_record_dates_ordered:
  assumes "new_LoanRecord rid iid uid loan due = Inr r0"
    and "r = call_setters r0 cs"
  shows "loan_record_invariant r
    \<and> (violates r c \<longrightarrow> (\<exists>m. call_setter r c = (Some (InvalidArgumentException m), r)))
    \<and> (\<not> violates r c \<longrightarrow> fst (call_setter r c) = None
          \<and> loan_record_invariant (snd (call_setter r c)))"
proof -
  have inv: "loan_record_invariant r"
    using assms new_LoanRecord_invariant call_setters_invariant by blast
  show ?thesis
    using inv call_setter_violates [of r c] call_setter_accepts [of r c]
      call_setter_invariant [of r c] by blast
qed

theorem C8_loan_record_dates_ordered_witness:
  "new_LoanRecord ''lr1'' ''item1'' ''user1'' 100 200 =
     Inr \<lparr>lr_record_id = ''lr1'', lr_item_id = ''item1'', lr_user_id = ''user1'',
          lr_loan_date = 100, lr_due_date = 200, lr_return_date = None\<rparr>
   \<and> call_setters \<lparr>lr_record_id = ''lr1'', lr_item_id = ''item1'', lr_user_id = ''user1'',
          lr_loan_date = 100, lr_due_date = 200, lr_return_date = None\<rparr>
        [SetDueDate 150, SetReturnDate 50, SetReturnDate 120] =
      \<lparr>lr_record_id = ''lr1'', lr_item_id = ''item1'', lr_user_id = ''user1'',
          lr_loan_date = 100, lr_due_date = 150, lr_return_date = Some 120\<rparr>
   \<and> loan_record_invariant \<lparr>lr_record_id = ''lr1'', lr_item_id = ''item1'', lr_user_id = ''user1'',
          lr_loan_date = 100, lr_due_date = 150, lr_return_date = Some 120\<rparr>
   \<and> violates \<lparr>lr_record_id = ''lr1'', lr_item_id = ''item1'', lr_user_id = ''user1'',
          lr_loan_date = 100, lr_due_date = 150, lr_return_date = Some 120\<rparr> (SetDueDate 99)
   \<and> (\<exists>m. call_setter \<lparr>lr_record_id = ''lr1'', lr_item_id = ''item1'', lr_user_id = ''user1'',
          lr_loan_date = 100, lr_due_date = 150, lr_return_date = Some 120\<rparr> (SetDueDate 99) =
        (Some (InvalidArgumentException m),
         \<lparr>lr_record_id = ''lr1'', lr_item_id = ''item1'', lr_user_id = ''user1'',
          lr_loan_date = 100, lr_due_date = 150, lr_return_date = Some 120\<rparr>))
   \<and> \<not> violates \<lparr>lr_record_id = ''lr1'', lr_item_id = ''item1'', lr_user_id = ''user1'',
          lr_loan_date = 100, lr_due_date = 150, lr_return_date = Some 120\<rparr> (SetReturnDate 130)
   \<and> fst (call_setter \<lparr>lr_record_id = ''lr1'', lr_item_id = ''item1'', lr_user_id = ''user1'',
          lr_loan_date = 100, lr_due_date = 150, lr_return_date = Some 120\<rparr> (SetReturnDate 130)) = None"
proof -
  let ?start = "\<lparr>lr_record_id = ''lr1'', lr_item_id = ''item1'', lr_user_id = ''user1'',
          lr_loan_date = 100, lr_due_date = 200, lr_return_date = None\<rparr>"
  let ?fin = "\<lparr>lr_record_id = ''lr1'', lr_item_id = ''item1'', lr_user_id = ''user1'',
          lr_loan_date = 100, lr_due_date = 150, lr_return_date = Some 120\<rparr>"
  have h1: "new_LoanRecord ''lr1'' ''item1'' ''user1'' 100 200 = Inr ?start"
    by (simp add: new_LoanRecord_def)
  have h2: "?fin = call_setters ?start [SetDueDate 150, SetReturnDate 50, SetReturnDate 120]"
    by (simp add: setDueDate_def setReturnDate_def)
  have v1: "violates ?fin (SetDueDate 99)" by simp
  have v2: "\<not> violates ?fin (SetReturnDate 130)" by simp
  from C8_loan_record_dates_ordered [OF h1 h2, of "SetDueDate 99"] v1
  have a: "loan_record_invariant ?fin
    \<and> (\<exists>m. call_setter ?fin (SetDueDate 99) = (Some (InvalidArgumentException m), ?fin))"
    by blast
  from C8_loan_record_dates_ordered [OF h1 h2, of "SetReturnDate 130"] v2
  have b: "fst (call_setter ?fin (SetReturnDate 130)) = None"
    by blast
  show ?thesis using h1 h2 [symmetric] v1 v2 a b by blast
qed

section \<open>The file backend and loan records\<close>

text \<open>
  C1 (evaluation at a failing input). A loan record with a return date is saved to an empty
  file backend and loaded by its id. The loan was made on 2024-01-01 at 10:30:05, is due on
  2024-01-15 at 10:30:05 and was returned on 2024-01-02 at 14:16:45; all three are whole
  seconds. The row written has the three dates in full, but the record loaded has each of
  them at midnight: \<open>parseDate\<close> sets the hour, minute and second it has just parsed to
  zero. The record loaded is not the record saved.
\<close>

theorem C1_file_loan_record_round_trip:
  "formatDateTime 1704105005000000000 date_time_format = ''2024-01-01 10:30:05''
   \<and> parseDate ''2024-01-01 10:30:05'' date_time_format = Some 1704067200000000000
   \<and> formatDateTime 1704067200000000000 date_time_format = ''2024-01-01 00:00:00''
   \<and> (case saveLoanRecord
          (File \<lparr>m_data_dir = ''./lms_data/'', disk = Map.empty, disk_writable = True\<rparr>)
          \<lparr>lr_record_id = ''loan_1'', lr_item_id = ''b1'', lr_user_id = ''u1'',
           lr_loan_date = 1704105005000000000, lr_due_date = 1705314605000000000,
           lr_return_date = Some 1704205005000000000\<rparr> of
         Inl e \<Rightarrow> False
       | Inr ps \<Rightarrow>
           loadLoanRecord ps ''loan_1'' =
             Some \<lparr>lr_record_id = ''loan_1'', lr_item_id = ''b1'', lr_user_id = ''u1'',
                   lr_loan_date = 1704067200000000000, lr_due_date = 1705276800000000000,
                   lr_return_date = Some 1704153600000000000\<rparr>
           \<and> loadLoanRecord ps ''loan_1'' \<noteq>
             Some \<lparr>lr_record_id = ''loan_1'', lr_item_id = ''b1'', lr_user_id = ''u1'',
                   lr_loan_date = 1704105005000000000, lr_due_date = 1705314605000000000,
                   lr_return_date = Some 1704205005000000000\<rparr>)"
  by code_simp

text \<open>
  C9 (evaluation at a failing input). \<^verbatim>\<open>updateLoanRecord\<close> of the file backend, called
  with a record whose id is not stored (the loans file does not exist yet), raises nothing
  and writes the record's row. The record has no return date, so the row's last field is
  empty and the line ends in a comma; read back, the line has five fields, not six, and
  neither \<^verbatim>\<open>loadLoanRecord\<close> nor \<^verbatim>\<open>loadAllLoanRecords\<close> gives the record.
\<close>

theorem C9_file_update_then_load:
  "(case updateLoanRecord
          (File \<lparr>m_data_dir = ''./lms_data/'', disk = Map.empty, disk_writable = True\<rparr>)
          \<lparr>lr_record_id = ''loan_1'', lr_item_id = ''b1'', lr_user_id = ''u1'',
           lr_loan_date = 1704067200000000000, lr_due_date = 1705276800000000000,
           lr_return_date = None\<rparr> of
      Inl e \<Rightarrow> False
    | Inr (File fs) \<Rightarrow>
        disk fs ''./lms_data/loans.csv'' =
          Some ''loan_1,b1,u1,2024-01-01 00:00:00,2024-01-15 00:00:00,\<newline>''
        \<and> readCsvFile fs m_loans_file =
          [[''loan_1'', ''b1'', ''u1'', ''2024-01-01 00:00:00'', ''2024-01-15 00:00:00'']]
        \<and> loadLoanRecord (File fs) ''loan_1'' = None
        \<and> loadAllLoanRecords (File fs) = []
    | Inr ps \<Rightarrow> False)"
  by code_simp

text \<open>
  C6 (evaluation at a failing input). The application on the file backend, with user
  \<open>u1\<close>, author \<open>a1\<close> and the available book \<open>b1\<close> in its files. The user borrows
  the book, which succeeds, and returns it a day later: \<^verbatim>\<open>returnItem\<close> raises
  \<^verbatim>\<open>NotFoundException\<close>, because the loan just written cannot be read back (see C9),
  and the book stays \<open>BORROWED\<close>.
\<close>

theorem C6_file_borrow_then_return:
  "(case borrowItem
      \<lparr>m_persistence_service =
         File \<lparr>m_data_dir = ''./lms_data/'',
               disk = [''./lms_data/authors.csv'' \<mapsto> ''a1,Ann\<newline>'',
                       ''./lms_data/users.csv'' \<mapsto> ''u1,Uma\<newline>'',
                       ''./lms_data/items.csv'' \<mapsto> ''b1,Book,Title,a1,isbn,2000,0\<newline>''],
               disk_writable = True\<rparr>,
       m_notification_service = [], m_default_loan_duration_days = 14,
       m_next_loan_id_counter = 0\<rparr>
      1704067200000000000 ''u1'' ''b1'' of
    (Inl e, s) \<Rightarrow> False
  | (Inr loan, s) \<Rightarrow>
      map_option book_availability_status
        (loadLibraryItem (m_persistence_service s) ''b1'') = Some BORROWED
      \<and> (case returnItem s 1704153600000000000 ''u1'' ''b1'' of
           (None, s') \<Rightarrow> False
         | (Some e, s') \<Rightarrow>
             is_NotFound e \<and>
             map_option book_availability_status
               (loadLibraryItem (m_persistence_service s') ''b1'') = Some BORROWED))"
  by code_simp

text \<open>
  C10 (evaluation at a failing input). The authors file holds the one line \<open>a1\<close>, which
  \<^verbatim>\<open>readCsvFile\<close> reads as a row of one field. \<^verbatim>\<open>saveAuthor\<close> for the author
  \<open>a1\<close> finds the row, since it is not empty and its field 0 is the id, and assigns to
  its field 1, which the row does not have. The same holds for \<^verbatim>\<open>saveUser\<close>. Such a
  row also comes from the backend's own writing: saving an author whose name has a line
  break leaves the second half of the name as a row of its own.
\<close>

theorem C10_save_assigns_outside_row:
  "readCsvFile \<lparr>m_data_dir = ''./lms_data/'',
                disk = [''./lms_data/authors.csv'' \<mapsto> ''a1\<newline>''],
                disk_writable = True\<rparr> m_authors_file = [[''a1'']]
   \<and> (case File_saveAuthor
            \<lparr>m_data_dir = ''./lms_data/'',
             disk = [''./lms_data/authors.csv'' \<mapsto> ''a1\<newline>''],
             disk_writable = True\<rparr>
            (Some \<lparr>author_id = ''a1'', author_name = ''Ann''\<rparr>) of
         Inl e \<Rightarrow> e = vector_index_out_of_range
       | Inr fs \<Rightarrow> False)
   \<and> (case File_saveUser
            \<lparr>m_data_dir = ''./lms_data/'',
             disk = [''./lms_data/users.csv'' \<mapsto> ''u1\<newline>''],
             disk_writable = True\<rparr>
            \<lparr>user_id = ''u1'', user_name = ''Uma''\<rparr> of
         Inl e \<Rightarrow> e = vector_index_out_of_range
       | Inr fs \<Rightarrow> False)
   \<and> (case File_saveAuthor
            \<lparr>m_data_dir = ''./lms_data/'', disk = Map.empty, disk_writable = True\<rparr>
            (Some \<lparr>author_id = ''a1'', author_name = ''Ann\<newline>a2''\<rparr>) of
         Inl e \<Rightarrow> False
       | Inr fs \<Rightarrow>
           readCsvFile fs m_authors_file = [[''a1'', ''Ann''], [''a2'']]
           \<and> (case File_saveAuthor fs (Some \<lparr>author_id = ''a2'', author_name = ''Bob''\<rparr>) of
                Inl e \<Rightarrow> e = vector_index_out_of_range
              | Inr fs' \<Rightarrow> False))"
  by code_simp


section \<open>The loan service\<close>

text \<open>
  C4. A user who exists asks to borrow an item that exists and whose status is not
  \<open>AVAILABLE\<close>. On each of the three backends \<^verbatim>\<open>borrowItem\<close> raises
  \<^verbatim>\<open>OperationFailedException\<close>, and the service after the call is the service before
  it: the persistence service with its loan records and items, the counter of loan ids and
  the notifications are all unchanged.
\<close>

theorem C4_borrow_unavailable_item:
  assumes "uid \<noteq> []" and "iid \<noteq> []"
    and "loadUser (m_persistence_service s) uid = Some user"
    and "loadLibraryItem (m_persistence_service s) iid = Some item"
    and "book_availability_status item \<noteq> AVAILABLE"
  shows "borrowItem s now_tp uid iid =
           (Inl (OperationFailedException
                   (''Item '' @ quoted iid @ '' is not available for borrowing. Status: ''
                      @ to_string (int_of_status (book_availability_status item)))), s)"
  using assms by (simp add: borrowItem_def findUserById_def findItemById_def)

lemma processOverdueItems_loop_eq:
  assumes "\<forall>loan \<in> set loans. lr_user_id loan \<noteq> [] \<and> lr_item_id loan \<noteq> []"
  shows "processOverdueItems_loop ps today_tp delivered loans =
           (None, delivered @
              map (\<lambda>loan. (lr_user_id loan,
                     overdue_message
                       (case loadUser ps (lr_user_id loan) of
                          Some user \<Rightarrow> user_name user | None \<Rightarrow> ''Unknown User'')
                       (case loadLibraryItem ps (lr_item_id loan) of
                          Some item \<Rightarrow> book_title item | None \<Rightarrow> ''Unknown Item'')
                       loan))
                (filter (is_overdue today_tp) loans))"
  using assms
proof (induction loans arbitrary: delivered)
  case Nil
  then show ?case by simp
next
  case (Cons loan rest)
  then show ?case
    by (simp add: notify_overdue_def findUserById_def findItemById_def sendNotification_def
        overdue_message_def)
qed


theorem C4_borrow_unavailable_item_witness:
  "''u1'' \<noteq> [] \<and> ''b1'' \<noteq> []
   \<and> loadUser (InMemory \<lparr>m_authors = [], 
          m_items = [(''b1'', \<lparr>book_id = ''b1'', book_title = ''Title'',
                       book_author = Some \<lparr>author_id = ''a1'', author_name = ''Ann''\<rparr>,
                       book_isbn = ''isbn'', book_publication_year = 2000,
                       book_availability_status = MAINTENANCE\<rparr>)],
          m_users = [(''u1'', \<lparr>user_id = ''u1'', user_name = ''Uma''\<rparr>)],
          m_loan_records = []\<rparr>) ''u1'' = Some \<lparr>user_id = ''u1'', user_name = ''Uma''\<rparr>
   \<and> loadLibraryItem (InMemory \<lparr>m_authors = [], 
          m_items = [(''b1'', \<lparr>book_id = ''b1'', book_title = ''Title'',
                       book_author = Some \<lparr>author_id = ''a1'', author_name = ''Ann''\<rparr>,
                       book_isbn = ''isbn'', book_publication_year = 2000,
                       book_availability_status = MAINTENANCE\<rparr>)],
          m_users = [(''u1'', \<lparr>user_id = ''u1'', user_name = ''Uma''\<rparr>)],
          m_loan_records = []\<rparr>) ''b1'' =
        Some \<lparr>book_id = ''b1'', book_title = ''Title'',
                       book_author = Some \<lparr>author_id = ''a1'', author_name = ''Ann''\<rparr>,
                       book_isbn = ''isbn'', book_publication_year = 2000,
                       book_availability_status = MAINTENANCE\<rparr>
   \<and> MAINTENANCE \<noteq> AVAILABLE
   \<and> borrowItem
        \<lparr>m_persistence_service = InMemory \<lparr>m_authors = [], 
          m_items = [(''b1'', \<lparr>book_id = ''b1'', book_title = ''Title'',
                       book_author = Some \<lparr>author_id = ''a1'', author_name = ''Ann''\<rparr>,
                       book_isbn = ''isbn'', book_publication_year = 2000,
                       book_availability_status = MAINTENANCE\<rparr>)],
          m_users = [(''u1'', \<lparr>user_id = ''u1'', user_name = ''Uma''\<rparr>)],
          m_loan_records = []\<rparr>,
         m_notification_service = [], m_default_loan_duration_days = 14,
         m_next_loan_id_counter = 0\<rparr> 1704067200000000000 ''u1'' ''b1'' =
       (Inl (OperationFailedException
               (''Item '' @ quoted ''b1'' @ '' is not available for borrowing. Status: 3'')),
        \<lparr>m_persistence_service = InMemory \<lparr>m_authors = [], 
          m_items = [(''b1'', \<lparr>book_id = ''b1'', book_title = ''Title'',
                       book_author = Some \<lparr>author_id = ''a1'', author_name = ''Ann''\<rparr>,
                       book_isbn = ''isbn'', book_publication_year = 2000,
                       book_availability_status = MAINTENANCE\<rparr>)],
          m_users = [(''u1'', \<lparr>user_id = ''u1'', user_name = ''Uma''\<rparr>)],
          m_loan_records = []\<rparr>,
         m_notification_service = [], m_default_loan_duration_days = 14,
         m_next_loan_id_counter = 0\<rparr>)"
proof -
  let ?item = "\<lparr>book_id = ''b1'', book_title = ''Title'',
                       book_author = Some \<lparr>author_id = ''a1'', author_name = ''Ann''\<rparr>,
                       book_isbn = ''isbn'', book_publication_year = 2000,
                       book_availability_status = MAINTENANCE\<rparr>"
  let ?user = "\<lparr>user_id = ''u1'', user_name = ''Uma''\<rparr>"
  let ?mem = "\<lparr>m_authors = [], m_items = [(''b1'', ?item)], m_users = [(''u1'', ?user)],
          m_loan_records = []\<rparr>"
  let ?svc = "\<lparr>m_persistence_service = InMemory ?mem,
         m_notification_service = [], m_default_loan_duration_days = 14,
         m_next_loan_id_counter = 0\<rparr>"
  have h1: "''u1'' \<noteq> []" and h2: "''b1'' \<noteq> []" by simp_all
  have h3: "loadUser (m_persistence_service ?svc) ''u1'' = Some ?user"
    by (simp add: InMemory_loadUser_def map_find_def)
  have h4: "loadLibraryItem (m_persistence_service ?svc) ''b1'' = Some ?item"
    by (simp add: InMemory_loadLibraryItem_def map_find_def clone_def)
  have h5: "book_availability_status ?item \<noteq> AVAILABLE" by simp
  have st: "to_string (int_of_status (book_availability_status ?item)) = ''3''"
    by code_simp
  from C4_borrow_unavailable_item [OF h1 h2 h3 h4 h5, of 1704067200000000000]
  have "borrowItem ?svc 1704067200000000000 ''u1'' ''b1'' =
       (Inl (OperationFailedException
               (''Item '' @ quoted ''b1'' @ '' is not available for borrowing. Status: 3'')), ?svc)"
    unfolding st by simp
  with h3 h4 show ?thesis by simp
qed

text \<open>
  C7. \<^verbatim>\<open>processOverdueItems\<close> raises nothing and delivers, after the notifications
  delivered before, one notification for each loan record of \<^verbatim>\<open>loadAllLoanRecords\<close>
  that has no return date and whose due date is before midnight of today, in the order of
  the records, to the record's user and with the record's id in the message; it delivers
  nothing for any other record. (The ids of a loan record are not empty, which the
  record's constructor checks.) The witness is the scenario of the claim: of two loans
  without return date, due on 2024-01-01 and on 2024-01-10, on 2024-01-05 at 09:00 only
  the first gets a notification.
\<close>

theorem C7_overdue_notifications:
  assumes "\<forall>loan \<in> set (loadAllLoanRecords (m_persistence_service s)).
             lr_user_id loan \<noteq> [] \<and> lr_item_id loan \<noteq> []"
  shows "processOverdueItems s now_tp =
           (None,
            s\<lparr>m_notification_service := m_notification_service s @
              map (\<lambda>loan. (lr_user_id loan,
                     overdue_message
                       (case loadUser (m_persistence_service s) (lr_user_id loan) of
                          Some user \<Rightarrow> user_name user | None \<Rightarrow> ''Unknown User'')
                       (case loadLibraryItem (m_persistence_service s) (lr_item_id loan) of
                          Some item \<Rightarrow> book_title item | None \<Rightarrow> ''Unknown Item'')
                       loan))
                (filter (\<lambda>loan. lr_return_date loan = None \<and> lr_due_date loan < today now_tp)
                   (loadAllLoanRecords (m_persistence_service s)))\<rparr>)"
proof -
  have "is_overdue (today now_tp) = (\<lambda>loan. lr_return_date loan = None \<and> lr_due_date loan < today now_tp)"
    by (rule ext) (simp add: is_overdue_def)
  then show ?thesis
    using processOverdueItems_loop_eq [OF assms, where ps = "m_persistence_service s"
        and today_tp = "today now_tp" and delivered = "m_notification_service s"]
    by (simp add: processOverdueItems_def)
qed

theorem C7_overdue_notifications_witness:
  "list_all (\<lambda>loan. lr_user_id loan \<noteq> [] \<and> lr_item_id loan \<noteq> [])
        (loadAllLoanRecords (InMemory
        \<lparr>m_authors = [],
          m_items = [(''b1'', \<lparr>book_id = ''b1'', book_title = ''Title'',
                       book_author = Some \<lparr>author_id = ''a1'', author_name = ''Ann''\<rparr>,
                       book_isbn = ''isbn'', book_publication_year = 2000,
                       book_availability_status = BORROWED\<rparr>)],
          m_users = [(''u1'', \<lparr>user_id = ''u1'', user_name = ''Uma''\<rparr>)],
          m_loan_records =
            [(''loan_1'', \<lparr>lr_record_id = ''loan_1'', lr_item_id = ''b1'', lr_user_id = ''u1'',
                 lr_loan_date = 1702857600000000000, lr_due_date = 1704067200000000000,
                 lr_return_date = None\<rparr>),
             (''loan_2'', \<lparr>lr_record_id = ''loan_2'', lr_item_id = ''b2'', lr_user_id = ''u2'',
                 lr_loan_date = 1703635200000000000, lr_due_date = 1704844800000000000,
                 lr_return_date = None\<rparr>)]\<rparr>))
   \<and> formatDateTime 1704067200000000000 date_time_format = ''2024-01-01 00:00:00''
   \<and> formatDateTime 1704844800000000000 date_time_format = ''2024-01-10 00:00:00''
   \<and> formatDateTime 1704445200000000000 date_time_format = ''2024-01-05 09:00:00''
   \<and> formatDateTime (today 1704445200000000000) date_time_format = ''2024-01-05 00:00:00''
   \<and> processOverdueItems
       \<lparr>m_persistence_service = InMemory
        \<lparr>m_authors = [],
          m_items = [(''b1'', \<lparr>book_id = ''b1'', book_title = ''Title'',
                       book_author = Some \<lparr>author_id = ''a1'', author_name = ''Ann''\<rparr>,
                       book_isbn = ''isbn'', book_publication_year = 2000,
                       book_availability_status = BORROWED\<rparr>)],
          m_users = [(''u1'', \<lparr>user_id = ''u1'', user_name = ''Uma''\<rparr>)],
          m_loan_records =
            [(''loan_1'', \<lparr>lr_record_id = ''loan_1'', lr_item_id = ''b1'', lr_user_id = ''u1'',
                 lr_loan_date = 1702857600000000000, lr_due_date = 1704067200000000000,
                 lr_return_date = None\<rparr>),
             (''loan_2'', \<lparr>lr_record_id = ''loan_2'', lr_item_id = ''b2'', lr_user_id = ''u2'',
                 lr_loan_date = 1703635200000000000, lr_due_date = 1704844800000000000,
                 lr_return_date = None\<rparr>)]\<rparr>,
        m_notification_service = [], m_default_loan_duration_days = 14,
        m_next_loan_id_counter = 2\<rparr> 1704445200000000000 =
      (None,
       \<lparr>m_persistence_service = InMemory
        \<lparr>m_authors = [],
          m_items = [(''b1'', \<lparr>book_id = ''b1'', book_title = ''Title'',
                       book_author = Some \<lparr>author_id = ''a1'', author_name = ''Ann''\<rparr>,
                       book_isbn = ''isbn'', book_publication_year = 2000,
                       book_availability_status = BORROWED\<rparr>)],
          m_users = [(''u1'', \<lparr>user_id = ''u1'', user_name = ''Uma''\<rparr>)],
          m_loan_records =
            [(''loan_1'', \<lparr>lr_record_id = ''loan_1'', lr_item_id = ''b1'', lr_user_id = ''u1'',
                 lr_loan_date = 1702857600000000000, lr_due_date = 1704067200000000000,
                 lr_return_date = None\<rparr>),
             (''loan_2'', \<lparr>lr_record_id = ''loan_2'', lr_item_id = ''b2'', lr_user_id = ''u2'',
                 lr_loan_date = 1703635200000000000, lr_due_date = 1704844800000000000,
                 lr_return_date = None\<rparr>)]\<rparr>,
        m_notification_service =
          [(''u1'', ''Dear Uma, the item '' @ quoted ''Title''
                     @ '' (Loan ID: loan_1) was due on 2024-01-01. Please return it as soon as possible.'')],
        m_default_loan_duration_days = 14,
        m_next_loan_id_counter = 2\<rparr>)"
proof -
  let ?mem = "\<lparr>m_authors = [],
          m_items = [(''b1'', \<lparr>book_id = ''b1'', book_title = ''Title'',
                       book_author = Some \<lparr>author_id = ''a1'', author_name = ''Ann''\<rparr>,
                       book_isbn = ''isbn'', book_publication_year = 2000,
                       book_availability_status = BORROWED\<rparr>)],
          m_users = [(''u1'', \<lparr>user_id = ''u1'', user_name = ''Uma''\<rparr>)],
          m_loan_records =
            [(''loan_1'', \<lparr>lr_record_id = ''loan_1'', lr_item_id = ''b1'', lr_user_id = ''u1'',
                 lr_loan_date = 1702857600000000000, lr_due_date = 1704067200000000000,
                 lr_return_date = None\<rparr>),
             (''loan_2'', \<lparr>lr_record_id = ''loan_2'', lr_item_id = ''b2'', lr_user_id = ''u2'',
                 lr_loan_date = 1703635200000000000, lr_due_date = 1704844800000000000,
                 lr_return_date = None\<rparr>)]\<rparr>"
  let ?svc = "\<lparr>m_persistence_service = InMemory ?mem,
        m_notification_service = [], m_default_loan_duration_days = 14,
        m_next_loan_id_counter = 2\<rparr>"
  have h: "\<forall>loan \<in> set (loadAllLoanRecords (m_persistence_service ?svc)).
             lr_user_id loan \<noteq> [] \<and> lr_item_id loan \<noteq> []"
    by (simp add: InMemory_loadAllLoanRecords_def)
  have dates: "formatDateTime 1704067200000000000 date_time_format = ''2024-01-01 00:00:00''
     \<and> formatDateTime 1704844800000000000 date_time_format = ''2024-01-10 00:00:00''
     \<and> formatDateTime 1704445200000000000 date_time_format = ''2024-01-05 09:00:00''
     \<and> formatDateTime (today 1704445200000000000) date_time_format = ''2024-01-05 00:00:00''"
    by code_simp
  have t: "today 1704445200000000000 = 1704412800000000000" by code_simp
  have m: "formatDate 1704067200000000000 date_format = ''2024-01-01''" by code_simp
  have "processOverdueItems ?svc 1704445200000000000 =
      (None, ?svc\<lparr>m_notification_service :=
          [(''u1'', ''Dear Uma, the item '' @ quoted ''Title''
                     @ '' (Loan ID: loan_1) was due on 2024-01-01. Please return it as soon as possible.'')]\<rparr>)"
    unfolding C7_overdue_notifications [OF h, of 1704445200000000000] t
    by (simp add: InMemory_loadAllLoanRecords_def InMemory_loadUser_def
        InMemory_loadLibraryItem_def map_find_def clone_def overdue_message_def m)
  with h dates show ?thesis by (simp add: list_all_iff)
qed


section \<open>Reading back what was written\<close>

lemma getline_all_Nil [simp]: "getline_all d [] = []"
  by (subst getline_all.simps) (simp add: getline_def)








subsection \<open>Escaping\<close>




lemma escape_Nil [simp]: "escapeCsvField [] = []"
  by (simp add: escapeCsvField_def std_replace_def)

lemma escape_eq_Nil [simp]: "escapeCsvField f = [] \<longleftrightarrow> f = []"
  by (simp add: escapeCsvField_def std_replace_def)


subsection \<open>Rows\<close>


lemma write_fields_eq_Nil: "write_fields r = [] \<longleftrightarrow> r = [] \<or> r = [[]]"
  by (induction r rule: write_fields.induct) auto






section \<open>Numbers written and read\<close>

lemma digit_char_cases:
  "digit_char n \<in> set ''0123456789'' \<and> of_char (digit_char n) = 48 + n mod 10"
proof -
  have "n mod 10 = 0 \<or> n mod 10 = 1 \<or> n mod 10 = 2 \<or> n mod 10 = 3 \<or> n mod 10 = 4
      \<or> n mod 10 = 5 \<or> n mod 10 = 6 \<or> n mod 10 = 7 \<or> n mod 10 = 8 \<or> n mod 10 = 9"
    by presburger
  then show ?thesis
    unfolding digit_char_def by (elim disjE) simp_all
qed

lemma is_digit_digit_char [simp]: "is_digit (digit_char n)"
  using digit_char_cases [of n] by (simp add: is_digit_def)

lemma digit_value_digit_char [simp]: "digit_value (digit_char n) = int (n mod 10)"
  using digit_char_cases [of n] by (simp add: digit_value_def)



lemma decimal_digits_nonempty [simp]: "decimal_digits n \<noteq> []"
  by (subst decimal_digits.simps) simp







lemma to_string_nonempty [simp]: "to_string n \<noteq> []"
  by (simp add: to_string_def)


section \<open>Saving to a backend and loading again\<close>

lemma map_find_map_assign:
  "map_find k (map_assign k' v m) = (if k = k' then Some v else map_find k m)"
  by (induction m) (auto simp: map_find_def)





lemma assign_record_not_found:
  "\<forall>r \<in> set rows. \<not> (r \<noteq> [] \<and> r ! 0 = i) \<Longrightarrow> assign_record i new rows = (False, rows)"
  by (induction rows) auto


lemma trim_row_stable: "r \<noteq> [] \<Longrightarrow> last r \<noteq> [] \<Longrightarrow> trim_row r = r"
  by (simp add: trim_row_def)

subsection \<open>Items in the file backend\<close>





lemma new_Book_Inr:
  "new_Book i t a isbn y s = Inr b \<Longrightarrow>
     b = \<lparr>book_id = i, book_title = t, book_author = a, book_isbn = isbn,
          book_publication_year = y, book_availability_status = s\<rparr>
     \<and> i \<noteq> [] \<and> t \<noteq> [] \<and> a \<noteq> None \<and> isbn \<noteq> [] \<and> 0 < y"
  unfolding new_Book_def by (simp split: if_splits)









subsection \<open>Borrowing\<close>








section \<open>An item whose author is missing\<close>

lemma loadLibraryItem_loop_find:
  "loadLibraryItem_loop fs i rows =
     (case find (\<lambda>f. 2 \<le> length f \<and> f ! 0 = i \<and> f ! 1 = ''Book'' \<and> length f = 7) rows of
        None \<Rightarrow> ([], None)
      | Some f \<Rightarrow> book_of_fields fs ''Error parsing book record for ID '' f)"
  by (induction rows) simp_all

lemma book_of_fields_missing_author:
  assumes "f ! 3 \<noteq> []" and "File_loadAuthor fs (f ! 3) = Inr None"
  shows "\<exists>msg. book_of_fields fs w f =
           ([''Warning: Author ID '' @ quoted (f ! 3) @ '' not found for book '' @ quoted (f ! 0)
               @ ''.'',
             ''FilePersistenceService: Could not load author '' @ f ! 3 @ '' for book '' @ f ! 0,
             w @ f ! 0 @ '': '' @ msg], None)"
proof (cases "stoi (f ! 5)")
  case (Inl e)
  with assms show ?thesis by (simp add: book_of_fields_def Let_def quoted_def)
next
  case y: (Inr y)
  show ?thesis
  proof (cases "stoi (f ! 6)")
    case (Inl e)
    with assms y show ?thesis by (simp add: book_of_fields_def Let_def quoted_def)
  next
    case st: (Inr st)
    obtain e where "new_Book (f ! 0) (f ! 2) None (f ! 4) y (status_of_int st) = Inl e"
      by (cases "new_Book (f ! 0) (f ! 2) None (f ! 4) y (status_of_int st)")
         (auto dest: new_Book_Inr)
    with assms y st show ?thesis by (simp add: book_of_fields_def Let_def quoted_def)
  qed
qed

text \<open>
  C3 (counterexample). The items file has the book \<open>b1\<close> with author id \<open>a9\<close>; the
  authors file has no author \<open>a9\<close>. \<^verbatim>\<open>loadLibraryItem\<close> writes its two warnings and
  then builds the book with a null author, which the constructor of \<^verbatim>\<open>Book\<close> refuses;
  the handler logs the exception and the load gives no item, not an item without author.
\<close>

theorem C3_missing_author_counterexample:
  "File_loadAuthor
     \<lparr>m_data_dir = ''./lms_data/'',
      disk = [''./lms_data/authors.csv'' \<mapsto> ''a1,Ann\<newline>'',
              ''./lms_data/items.csv'' \<mapsto> ''b1,Book,Title,a9,isbn,2000,0\<newline>''],
      disk_writable = True\<rparr> ''a9'' = Inr None
   \<and> File_loadLibraryItem_logged
     \<lparr>m_data_dir = ''./lms_data/'',
      disk = [''./lms_data/authors.csv'' \<mapsto> ''a1,Ann\<newline>'',
              ''./lms_data/items.csv'' \<mapsto> ''b1,Book,Title,a9,isbn,2000,0\<newline>''],
      disk_writable = True\<rparr> ''b1'' =
       ([''Warning: Author ID '' @ quoted ''a9'' @ '' not found for book '' @ quoted ''b1'' @ ''.'',
         ''FilePersistenceService: Could not load author a9 for book b1'',
         ''Error parsing book record for ID b1: Book author cannot be null.''],
        None)
   \<and> loadLibraryItem (File
     \<lparr>m_data_dir = ''./lms_data/'',
      disk = [''./lms_data/authors.csv'' \<mapsto> ''a1,Ann\<newline>'',
              ''./lms_data/items.csv'' \<mapsto> ''b1,Book,Title,a9,isbn,2000,0\<newline>''],
      disk_writable = True\<rparr>) ''b1'' = None"
  by code_simp

text \<open>
  C3 (amended). In the file backend, loading a library item whose row (the first row of
  seven fields for the id that is marked \<open>Book\<close>) names an author id that
  \<^verbatim>\<open>loadAuthor\<close> does not find raises nothing and logs the condition, but gives no
  item: the log is the two warnings about the author and the message of the exception
  caught, and the result is the empty optional.
\<close>

theorem C3_missing_author_gives_no_item:
  assumes "find (\<lambda>f. 2 \<le> length f \<and> f ! 0 = i \<and> f ! 1 = ''Book'' \<and> length f = 7)
             (readCsvFile fs m_items_file) = Some f"
    and "f ! 3 \<noteq> []"
    and "File_loadAuthor fs (f ! 3) = Inr None"
  shows "loadLibraryItem (File fs) i = None
    \<and> (\<exists>msg. File_loadLibraryItem_logged fs i =
          ([''Warning: Author ID '' @ quoted (f ! 3) @ '' not found for book '' @ quoted i @ ''.'',
            ''FilePersistenceService: Could not load author '' @ f ! 3 @ '' for book '' @ i,
            ''Error parsing book record for ID '' @ i @ '': '' @ msg], None))"
proof -
  from assms(1) have fi: "f ! 0 = i" by (auto simp: find_Some_iff)
  from book_of_fields_missing_author [OF assms(2,3), of "''Error parsing book record for ID ''"]
  obtain msg where "book_of_fields fs ''Error parsing book record for ID '' f =
           ([''Warning: Author ID '' @ quoted (f ! 3) @ '' not found for book '' @ quoted i @ ''.'',
             ''FilePersistenceService: Could not load author '' @ f ! 3 @ '' for book '' @ i,
             ''Error parsing book record for ID '' @ i @ '': '' @ msg], None)"
    unfolding fi by blast
  then have "File_loadLibraryItem_logged fs i =
           ([''Warning: Author ID '' @ quoted (f ! 3) @ '' not found for book '' @ quoted i @ ''.'',
             ''FilePersistenceService: Could not load author '' @ f ! 3 @ '' for book '' @ i,
             ''Error parsing book record for ID '' @ i @ '': '' @ msg], None)"
    using assms(1) by (simp add: File_loadLibraryItem_logged_def loadLibraryItem_loop_find)
  then show ?thesis by (auto simp: File_loadLibraryItem_def)
qed

theorem C3_missing_author_gives_no_item_witness:
  "find (\<lambda>f. 2 \<le> length f \<and> f ! 0 = ''b2'' \<and> f ! 1 = ''Book'' \<and> length f = 7)
     (readCsvFile
        \<lparr>m_data_dir = ''./lms_data/'',
         disk = [''./lms_data/items.csv'' \<mapsto>
                   ''b1,Book,One,a1,isbn1,1999,0\<newline>b2,Book,Two,a2,isbn2,2001,1\<newline>''],
         disk_writable = True\<rparr> m_items_file) =
     Some [''b2'', ''Book'', ''Two'', ''a2'', ''isbn2'', ''2001'', ''1'']
   \<and> [''b2'', ''Book'', ''Two'', ''a2'', ''isbn2'', ''2001'', ''1''] ! 3 \<noteq> []
   \<and> File_loadAuthor
        \<lparr>m_data_dir = ''./lms_data/'',
         disk = [''./lms_data/items.csv'' \<mapsto>
                   ''b1,Book,One,a1,isbn1,1999,0\<newline>b2,Book,Two,a2,isbn2,2001,1\<newline>''],
         disk_writable = True\<rparr>
        ([''b2'', ''Book'', ''Two'', ''a2'', ''isbn2'', ''2001'', ''1''] ! 3) = Inr None
   \<and> loadLibraryItem (File
        \<lparr>m_data_dir = ''./lms_data/'',
         disk = [''./lms_data/items.csv'' \<mapsto>
                   ''b1,Book,One,a1,isbn1,1999,0\<newline>b2,Book,Two,a2,isbn2,2001,1\<newline>''],
         disk_writable = True\<rparr>) ''b2'' = None"
proof -
  let ?fs = "\<lparr>m_data_dir = ''./lms_data/'',
         disk = [''./lms_data/items.csv'' \<mapsto>
                   ''b1,Book,One,a1,isbn1,1999,0\<newline>b2,Book,Two,a2,isbn2,2001,1\<newline>''],
         disk_writable = True\<rparr>"
  let ?f = "[''b2'', ''Book'', ''Two'', ''a2'', ''isbn2'', ''2001'', ''1'']"
  have h1: "find (\<lambda>f. 2 \<le> length f \<and> f ! 0 = ''b2'' \<and> f ! 1 = ''Book'' \<and> length f = 7)
     (readCsvFile ?fs m_items_file) = Some ?f"
    by code_simp
  have h2: "?f ! 3 \<noteq> []" by simp
  have h3: "File_loadAuthor ?fs (?f ! 3) = Inr None" by code_simp
  from C3_missing_author_gives_no_item [OF h1 h2 h3]
  have "loadLibraryItem (File ?fs) ''b2'' = None" by blast
  with h1 h2 h3 show ?thesis by blast
qed


section \<open>Persisting the cache\<close>

subsection \<open>An id written is an id read\<close>






lemma escape_plain_no_newline: "CHR 0x0A \<notin> set f \<Longrightarrow> CHR 0x0A \<notin> set (escapeCsvField f)"
  unfolding escapeCsvField_def std_replace_def COMMA_PLACEHOLDER_def QUOTE_PLACEHOLDER_def
  by (induction f) auto




subsection \<open>A save keeps the ids of a file and adds its own\<close>












subsection \<open>The loops of persistAllToFile\<close>


lemma row_ids_cong: "readCsvFile fs' n = readCsvFile fs n \<Longrightarrow> row_ids fs' n = row_ids fs n"
  by (simp add: row_ids_def)








section \<open>The backends that keep their data in memory\<close>

text \<open>
  The in-memory backend and the caching backend answer every load from the maps of the
  in-memory service, which hold the objects themselves and no text. Below, \<open>wrap\<close>
  is either of the two, as a function of the in-memory service it holds.
\<close>


lemma find_map_assign:
  assumes "P v" and "\<forall>x \<in> set (map snd m). \<not> P x"
  shows "find P (map snd (map_assign k v m)) = Some v"
  using assms by (induction m) auto

lemma find_filter:
  "find P (filter Q xs) = find (\<lambda>x. Q x \<and> P x) xs"
  by (induction xs) auto

lemma wrapped_calls:
  assumes "wrap = InMemory \<or> wrap = (\<lambda>mem. Caching (c\<lparr>m_memory_store := mem\<rparr>))"
  shows "loadUser (wrap mem) = InMemory_loadUser mem"
    and "loadLibraryItem (wrap mem) = InMemory_loadLibraryItem mem"
    and "loadLoanRecord (wrap mem) = InMemory_loadLoanRecord mem"
    and "loadLoanRecordsByUserId (wrap mem) = InMemory_loadLoanRecordsByUserId mem"
    and "loadLoanRecordsByItemId (wrap mem) = InMemory_loadLoanRecordsByItemId mem"
    and "saveLoanRecord (wrap mem) r = Inr (wrap (InMemory_saveLoanRecord mem r))"
    and "updateLoanRecord (wrap mem) r = Inr (wrap (InMemory_updateLoanRecord mem r))"
    and "saveLibraryItem (wrap mem) b = Inr (wrap (InMemory_saveLibraryItem mem b))"
  using assms by (auto simp: fun_eq_iff)

lemma borrow_then_return_wrapped:
  assumes w: "wrap = InMemory \<or> wrap = (\<lambda>mem. Caching (c\<lparr>m_memory_store := mem\<rparr>))"
    and ps: "m_persistence_service s = wrap mem"
    and ids: "uid \<noteq> []" "iid \<noteq> []"
    and user: "InMemory_loadUser mem uid = Some user"
    and item: "InMemory_loadLibraryItem mem iid = Some item"
    and same: "book_id item = iid"
    and avail: "book_availability_status item = AVAILABLE"
    and free: "\<forall>loan \<in> set (InMemory_loadLoanRecordsByUserId mem uid).
                 lr_item_id loan = iid \<longrightarrow> lr_return_date loan \<noteq> None"
    and days: "0 < m_default_loan_duration_days s"
    and clock: "loan_tp \<le> return_tp"
  shows "\<exists>loan s1 s2.
           borrowItem s loan_tp uid iid = (Inr loan, s1)
         \<and> returnItem s1 return_tp uid iid = (None, s2)
         \<and> loadLibraryItem (m_persistence_service s2) iid = Some item
         \<and> loadLoanRecord (m_persistence_service s2) (lr_record_id loan) =
             Some (loan\<lparr>lr_return_date := Some return_tp\<rparr>)
         \<and> lr_loan_date loan \<le> return_tp"
proof -
  note calls = wrapped_calls [OF w]
  let ?lid = "''loan_'' @ to_string (m_next_loan_id_counter s + 1)"
  let ?loan = "\<lparr>lr_record_id = ?lid, lr_item_id = iid, lr_user_id = uid, lr_loan_date = loan_tp,
                lr_due_date = addDays loan_tp (m_default_loan_duration_days s),
                lr_return_date = None\<rparr>"
  let ?mem1 = "InMemory_saveLoanRecord mem ?loan"
  let ?mem2 = "InMemory_saveLibraryItem ?mem1 (Some (setAvailabilityStatus item BORROWED))"
  let ?s1 = "s\<lparr>m_next_loan_id_counter := m_next_loan_id_counter s + 1,
               m_persistence_service := wrap ?mem2\<rparr>"
  let ?ended = "?loan\<lparr>lr_return_date := Some return_tp\<rparr>"
  let ?mem3 = "InMemory_updateLoanRecord ?mem2 ?ended"
  let ?mem4 = "InMemory_saveLibraryItem ?mem3 (Some item)"
  let ?s2 = "?s1\<lparr>m_persistence_service := wrap ?mem4\<rparr>"
  have due: "\<not> addDays loan_tp (m_default_loan_duration_days s) < loan_tp"
    using days by (simp add: addDays_def ticks_per_second_def)
  have none: "find (\<lambda>lr. lr_item_id lr = iid)
      (filter (\<lambda>record. lr_return_date record = None)
         (InMemory_loadLoanRecordsByUserId mem uid)) = None"
    using free by (auto simp: find_None_iff)
  have item1: "InMemory_loadLibraryItem ?mem1 iid = Some item"
    using item by (simp add: InMemory_loadLibraryItem_def InMemory_saveLoanRecord_def)
  have borrow: "borrowItem s loan_tp uid iid = (Inr ?loan, ?s1)"
    using ids user item avail none due item1
    by (simp add: borrowItem_def ps calls findUserById_def findItemById_def
        getActiveLoansForUser_def generateLoanRecordId_def new_LoanRecord_def Let_def
        updateItemStatus_def)
  have others: "\<forall>x \<in> set (map snd (m_loan_records mem)).
      \<not> (lr_item_id x = iid \<and> lr_user_id x = uid \<and> lr_return_date x = None)"
    using free by (auto simp: InMemory_loadLoanRecordsByUserId_def)
  have active: "find (\<lambda>loan. lr_user_id loan = uid \<and> lr_return_date loan = None)
      (InMemory_loadLoanRecordsByItemId ?mem2 iid) = Some ?loan"
    using find_map_assign [of "\<lambda>x. lr_item_id x = iid \<and> lr_user_id x = uid \<and> lr_return_date x = None"
        ?loan "m_loan_records mem" ?lid] others
    by (simp add: InMemory_loadLoanRecordsByItemId_def InMemory_saveLibraryItem_def
        InMemory_saveLoanRecord_def find_filter)
  have returned: "setReturnDate ?loan return_tp = Inr ?ended"
    using clock by (simp add: setReturnDate_def)
  have item3: "InMemory_loadLibraryItem ?mem3 iid = Some (setAvailabilityStatus item BORROWED)"
    using same
    by (simp add: InMemory_loadLibraryItem_def InMemory_saveLibraryItem_def
        InMemory_updateLoanRecord_def InMemory_saveLoanRecord_def map_find_map_assign clone_def
        setAvailabilityStatus_def)
  have again: "setAvailabilityStatus (setAvailabilityStatus item BORROWED) AVAILABLE = item"
    using avail by (simp add: setAvailabilityStatus_def)
  have ret: "returnItem ?s1 return_tp uid iid = (None, ?s2)"
    using ids active returned item3 again
    by (simp add: returnItem_def calls updateItemStatus_def Let_def)
  have item4: "InMemory_loadLibraryItem ?mem4 iid = Some item"
    using same
    by (simp add: InMemory_loadLibraryItem_def InMemory_saveLibraryItem_def map_find_map_assign
        clone_def)
  have loan4: "InMemory_loadLoanRecord ?mem4 ?lid = Some ?ended"
    by (simp add: InMemory_loadLoanRecord_def InMemory_saveLibraryItem_def
        InMemory_updateLoanRecord_def map_find_map_assign)
  show ?thesis
    using borrow ret item4 loan4 clock by (simp add: calls)
qed

text \<open>
  On a backend other than the file backend, a user who exists borrows an available item,
  of which the user has no loan without a return date, and returns it at a later reading of
  the clock (or the same). Both calls succeed; afterwards the item loaded is the item as it
  was, \<open>AVAILABLE\<close>, and the loan record loaded under the id of the loan is the loan
  with the second reading of the clock as its return date, which is not before its loan
  date.
\<close>

lemma borrow_then_return_in_memory:
  assumes backend: "\<And>fs. m_persistence_service s \<noteq> File fs"
    and ids: "uid \<noteq> []" "iid \<noteq> []"
    and user: "loadUser (m_persistence_service s) uid = Some user"
    and item: "loadLibraryItem (m_persistence_service s) iid = Some item"
    and same: "book_id item = iid"
    and avail: "book_availability_status item = AVAILABLE"
    and free: "\<forall>loan \<in> set (loadLoanRecordsByUserId (m_persistence_service s) uid).
                 lr_item_id loan = iid \<longrightarrow> lr_return_date loan \<noteq> None"
    and days: "0 < m_default_loan_duration_days s"
    and clock: "loan_tp \<le> return_tp"
  shows "\<exists>loan s1 s2.
           borrowItem s loan_tp uid iid = (Inr loan, s1)
         \<and> returnItem s1 return_tp uid iid = (None, s2)
         \<and> loadLibraryItem (m_persistence_service s2) iid = Some item
         \<and> loadLoanRecord (m_persistence_service s2) (lr_record_id loan) =
             Some (loan\<lparr>lr_return_date := Some return_tp\<rparr>)
         \<and> lr_loan_date loan \<le> return_tp"
proof (cases "m_persistence_service s")
  case (InMemory mem)
  show ?thesis
    using borrow_then_return_wrapped [of InMemory undefined s mem uid iid user item
        loan_tp return_tp] InMemory assms
    by simp
next
  case (File fs)
  with backend [of fs] show ?thesis by simp
next
  case (Caching c)
  let ?wrap = "\<lambda>mem. Caching (c\<lparr>m_memory_store := mem\<rparr>)"
  have "m_persistence_service s = ?wrap (m_memory_store c)"
    using Caching by simp
  then show ?thesis
    using borrow_then_return_wrapped [of ?wrap c s "m_memory_store c" uid iid user item
        loan_tp return_tp] Caching assms
    by simp
qed

text \<open>
  On a backend other than the file backend, a save or an update followed by a load of the
  same id gives what was saved, for each of the four entities, whether or not the id was
  stored before.
\<close>

lemma save_then_load_in_memory:
  assumes "\<And>fs. ps \<noteq> File fs"
  shows "\<exists>ps'. saveAuthor ps (Some a) = Inr ps' \<and> loadAuthor ps' (author_id a) = Inr (Some a)"
    and "\<exists>ps'. saveUser ps u = Inr ps' \<and> loadUser ps' (user_id u) = Some u"
    and "\<exists>ps'. saveLibraryItem ps (Some b) = Inr ps' \<and> loadLibraryItem ps' (book_id b) = Some b"
    and "\<exists>ps'. saveLoanRecord ps r = Inr ps' \<and> loadLoanRecord ps' (lr_record_id r) = Some r"
    and "\<exists>ps'. updateLoanRecord ps r = Inr ps' \<and> loadLoanRecord ps' (lr_record_id r) = Some r"
  using assms
  by (cases ps;
      simp add: InMemory_saveAuthor_def InMemory_loadAuthor_def InMemory_saveUser_def
        InMemory_loadUser_def InMemory_saveLibraryItem_def InMemory_loadLibraryItem_def
        InMemory_saveLoanRecord_def InMemory_updateLoanRecord_def InMemory_loadLoanRecord_def
        clone_def map_find_map_assign)+

end
